theory Spec2Isabelle
  imports Complex_Main
begin

section \<open>Numbers, vectors and matrices\<close>

text \<open>
  The module computes with C++ \<^verbatim>\<open>double\<close>. The embedding reads every \<^verbatim>\<open>double\<close> as a
  real number: rounding, signed zeros and NaN are outside the model. A
  \<^verbatim>\<open>yarp::sig::Vector\<close> is a list of reals; a \<^verbatim>\<open>yarp::sig::Matrix\<close> is a function from
  (row, column) to its entry, \<^verbatim>\<open>M(r,c)\<close> being \<open>M r c\<close>.
\<close>

type_synonym Vector = "real list"
type_synonym Matrix = "nat \<Rightarrow> nat \<Rightarrow> real"

text \<open>\<^verbatim>\<open>Matrix M(r,c); M.zero();\<close> and \<^verbatim>\<open>eye(4,4)\<close>.\<close>

definition zeroM :: Matrix where
  "zeroM = (\<lambda>r c. 0)"

definition eye :: "nat \<Rightarrow> Matrix" where
  "eye n = (\<lambda>r c. if r = c \<and> r < n then 1 else 0)"

text \<open>One assignment \<^verbatim>\<open>M(r,c)=v\<close>, and a sequence of them in program order.\<close>

definition put :: "Matrix \<Rightarrow> nat \<times> nat \<times> real \<Rightarrow> Matrix" where
  "put M e = (case e of (r, c, v) \<Rightarrow> M(r := (M r)(c := v)))"

definition puts :: "Matrix \<Rightarrow> (nat \<times> nat \<times> real) list \<Rightarrow> Matrix" where
  "puts M es = foldl put M es"

text \<open>The product of two \<open>n\<close> by \<open>n\<close> matrices, and of a matrix with a vector.\<close>

definition mmul :: "nat \<Rightarrow> Matrix \<Rightarrow> Matrix \<Rightarrow> Matrix" where
  "mmul n A B = (\<lambda>r c. sum_list (map (\<lambda>k. A r k * B k c) [0..<n]))"

definition mvec :: "nat \<Rightarrow> Matrix \<Rightarrow> Vector \<Rightarrow> Vector" where
  "mvec n A x = map (\<lambda>r. sum_list (map (\<lambda>k. A r k * x ! k) [0..<n])) [0..<n]"

definition msub :: "Matrix \<Rightarrow> Matrix \<Rightarrow> Matrix" where
  "msub A B = (\<lambda>r c. A r c - B r c)"

text \<open>\<^verbatim>\<open>M.getCol(c)\<close> of a 4 by 4 matrix, \<^verbatim>\<open>M.getCol(3).subVector(0,2)\<close>, \<^verbatim>\<open>M.setCol(c,v)\<close>
  and \<^verbatim>\<open>M.setSubmatrix(R,0,0)\<close> for a 3 by 3 block \<open>R\<close>.\<close>

definition getCol :: "Matrix \<Rightarrow> nat \<Rightarrow> Vector" where
  "getCol M c = map (\<lambda>r. M r c) [0..<4]"

definition position :: "Matrix \<Rightarrow> Vector" where
  "position M = take 3 (getCol M 3)"

definition setCol :: "Matrix \<Rightarrow> nat \<Rightarrow> Vector \<Rightarrow> Matrix" where
  "setCol M c v = (\<lambda>r k. if k = c \<and> r < 4 then v ! r else M r k)"

definition setSubmatrix3 :: "Matrix \<Rightarrow> Matrix \<Rightarrow> Matrix" where
  "setSubmatrix3 M R = (\<lambda>r c. if r < 3 \<and> c < 3 then R r c else M r c)"

text \<open>Vector sum, difference, scaling and the Euclidean norm \<^verbatim>\<open>yarp::math::norm\<close>.\<close>

definition vadd :: "Vector \<Rightarrow> Vector \<Rightarrow> Vector" where
  "vadd x y = map (\<lambda>(a, b). a + b) (zip x y)"

definition vsub :: "Vector \<Rightarrow> Vector \<Rightarrow> Vector" where
  "vsub x y = map (\<lambda>(a, b). a - b) (zip x y)"

definition vscale :: "real \<Rightarrow> Vector \<Rightarrow> Vector" where
  "vscale k x = map (\<lambda>a. k * a) x"

definition norm_v :: "Vector \<Rightarrow> real" where
  "norm_v x = sqrt (sum_list (map (\<lambda>a. a * a) x))"

text \<open>\<^verbatim>\<open>KarmaMotor::dist\<close>: the square root of the sum of the squared entries, here of a
  4 by 4 matrix.\<close>

definition dist_M :: "Matrix \<Rightarrow> real" where
  "dist_M M = sqrt (sum_list (map (\<lambda>r. sum_list (map (\<lambda>c. M r c * M r c) [0..<4])) [0..<4]))"

section \<open>Library routines the module calls\<close>

text \<open>\<^verbatim>\<open>CTRL_DEG2RAD\<close> and \<^verbatim>\<open>CTRL_RAD2DEG\<close> of \<^verbatim>\<open>iCub/ctrl/math.h\<close>.\<close>

definition CTRL_DEG2RAD :: real where
  "CTRL_DEG2RAD = pi / 180"

definition CTRL_RAD2DEG :: real where
  "CTRL_RAD2DEG = 180 / pi"

text \<open>The C library's \<^verbatim>\<open>atan2(y,x)\<close> on real numbers: the angle of the point \<open>(x, y)\<close>, and
  0 at the origin.\<close>

definition atan2 :: "real \<Rightarrow> real \<Rightarrow> real" where
  "atan2 y x =
     (if 0 < x then arctan (y / x)
      else if x < 0 then (if 0 \<le> y then arctan (y / x) + pi else arctan (y / x) - pi)
      else if 0 < y then pi / 2
      else if y < 0 then - (pi / 2)
      else 0)"

text \<open>Modelled from the spec: \<^verbatim>\<open>SE3inv\<close> is a routine of the iCub control library, which
  is not part of the sources; the spec gives its closed form, the rigid-body inverse
  \<open>(R\<^sup>T, - R\<^sup>T t)\<close> of a homogeneous transform with rotation \<open>R\<close> and translation \<open>t\<close>.\<close>

definition SE3inv :: "Matrix \<Rightarrow> Matrix" where
  "SE3inv H = (\<lambda>r c.
     if r < 3 \<and> c < 3 then H c r
     else if r < 3 \<and> c = 3 then - (H 0 r * H 0 3 + H 1 r * H 1 3 + H 2 r * H 2 3)
     else if r = 3 \<and> c = 3 then 1
     else 0)"

section \<open>Approach angle\<close>

text \<open>The first lines of \<^verbatim>\<open>KarmaMotor::push\<close>: \<^verbatim>\<open>theta_rad\<close>, \<^verbatim>\<open>_c\<close>, \<^verbatim>\<open>_s\<close> and the
  angle \<^verbatim>\<open>_theta\<close> brought back into one turn. This is the value of the expression on
  real numbers. The program's doubles differ from it by rounding, and at the end of the
  interval by a whole turn: for \<^verbatim>\<open>theta\<close> = -180 the real value is 180 and the program
  returns -180. What is proved below with \<open>normalize_theta\<close> concerns the bands around
  90 and -90 degrees only, far from that end.\<close>

definition theta_rad :: "real \<Rightarrow> real" where
  "theta_rad theta = CTRL_DEG2RAD * theta"

definition normalize_theta :: "real \<Rightarrow> real" where
  "normalize_theta theta =
     CTRL_RAD2DEG * atan2 (sin (theta_rad theta)) (cos (theta_rad theta))"

section \<open>Bottles\<close>

text \<open>A \<^verbatim>\<open>yarp::os::Bottle\<close> is a list of values. A vocabulary code is the integer that
  packs up to four characters, the first in the lowest byte (\<^verbatim>\<open>VOCAB4\<close>,
  \<^verbatim>\<open>Vocab::encode\<close>). The accessors are YARP's: reading past the end gives the null value,
  and a conversion from the wrong kind gives 0 or the empty string.\<close>

datatype Value = VNull | VInt int | VDouble real | VString string | VVocab int

type_synonym Bottle = "Value list"

definition Vocab_encode :: "string \<Rightarrow> int" where
  "Vocab_encode s = foldr (\<lambda>ch acc. of_char ch + 256 * acc) (take 4 s) 0"

definition get :: "Bottle \<Rightarrow> nat \<Rightarrow> Value" where
  "get b i = (if i < length b then b ! i else VNull)"

fun asVocab :: "Value \<Rightarrow> int" where
  "asVocab (VVocab v) = v"
| "asVocab (VInt i) = i"
| "asVocab (VString s) = Vocab_encode s"
| "asVocab _ = 0"

fun asDouble :: "Value \<Rightarrow> real" where
  "asDouble (VDouble d) = d"
| "asDouble (VInt i) = of_int i"
| "asDouble _ = 0"

fun asString :: "Value \<Rightarrow> string" where
  "asString (VString s) = s"
| "asString _ = []"

definition ack :: Value where
  "ack = VVocab (Vocab_encode ''ack'')"

definition nack :: Value where
  "nack = VVocab (Vocab_encode ''nack'')"

section \<open>The module's state and its collaborators\<close>

datatype Arm = LeftArm | RightArm

text \<open>The fields of \<^verbatim>\<open>KarmaMotor\<close> the actions read or write. \<^verbatim>\<open>iCartCtrl\<close> points to the
  controller of one arm (\<^verbatim>\<open>iCartCtrlL\<close> or \<^verbatim>\<open>iCartCtrlR\<close>) once an action has assigned it,
  and is \<open>None\<close> before. \<open>interrupting_flag\<close> is the field \<^verbatim>\<open>interrupting\<close> as a request
  finds it and leaves it: \<^verbatim>\<open>interruptModule\<close> sets it, from the thread of the stop port,
  and \<^verbatim>\<open>respond\<close> clears it before it returns.\<close>

record KarmaMotor =
  pushHand :: string
  toolFrame :: Matrix
  iCartCtrl :: "Arm option"
  interrupting_flag :: bool
  elbow_set :: bool
  elbow_height :: real
  elbow_weight :: real
  mov_time :: real

text \<open>What the module does not compute itself: the conversions \<^verbatim>\<open>dcm2axis\<close> and
  \<^verbatim>\<open>axis2dcm\<close> of the control library, the answers of the Cartesian controller
  (\<^verbatim>\<open>askForPose\<close>, with or without a starting joint configuration, returns the achieved
  position, orientation and joints; \<^verbatim>\<open>getDOF\<close>; the token of \<^verbatim>\<open>storeContext\<close>), and the
  flag \<^verbatim>\<open>interrupting\<close> while an action runs. The stop port can set the flag at any
  moment, so what an action reads is not determined by the state it started from:
  \<open>interrupting env k\<close> is the value the running action reads at its \<open>k\<close>-th test of the
  flag, counted from 0. Nothing is assumed of these values; a statement about every
  \<open>env\<close> covers the runs that start with the flag set as well as the others.\<close>

record Env =
  dcm2axis :: "Matrix \<Rightarrow> Vector"
  axis2dcm :: "Vector \<Rightarrow> Matrix"
  askForPose :: "Arm \<Rightarrow> Vector \<Rightarrow> Vector \<Rightarrow> Vector \<times> Vector \<times> Vector"
  askForPoseFrom :: "Arm \<Rightarrow> Vector \<Rightarrow> Vector \<Rightarrow> Vector \<Rightarrow> Vector \<times> Vector \<times> Vector"
  getDOF :: "Arm \<Rightarrow> Vector"
  storeContext :: "Arm \<Rightarrow> int"
  interrupting :: "nat \<Rightarrow> bool"

text \<open>The calls an action makes on the controllers, in the order it makes them.\<close>

datatype Call =
    StoreContext Arm
  | TweakStraightness Arm real
  | TweakElbow Arm real real
  | GetDOF Arm
  | SetDOF Arm Vector
  | AskForPose Arm Vector Vector
  | AskForPoseFrom Arm Vector Vector Vector
  | GoToPoseSync Arm Vector Vector real
  | WaitMotionDone Arm real real
  | RestoreContext Arm int
  | DeleteContext Arm int
  | LookAtMonoPixel nat Vector

fun is_motion :: "Call \<Rightarrow> bool" where
  "is_motion (GoToPoseSync a x od t) = True"
| "is_motion _ = False"

fun is_restore :: "Call \<Rightarrow> bool" where
  "is_restore (RestoreContext a n) = True"
| "is_restore _ = False"

fun is_delete :: "Call \<Rightarrow> bool" where
  "is_delete (DeleteContext a n) = True"
| "is_delete _ = False"

fun is_store :: "Call \<Rightarrow> bool" where
  "is_store (StoreContext a) = True"
| "is_store _ = False"

text \<open>The targets of the motion commands among some calls: position, orientation and
  duration, without the arm.\<close>

fun motion_targets :: "Call list \<Rightarrow> (Vector \<times> Vector \<times> real) list" where
  "motion_targets [] = []"
| "motion_targets (GoToPoseSync a x od t # cs) = (x, od, t) # motion_targets cs"
| "motion_targets (c # cs) = motion_targets cs"

text \<open>\<^verbatim>\<open>changeElbowHeight\<close>.\<close>

definition changeElbowHeight :: "KarmaMotor \<Rightarrow> Arm \<Rightarrow> Call list" where
  "changeElbowHeight st arm =
     (if elbow_set st then [TweakElbow arm (elbow_height st) (elbow_weight st)] else [])"

text \<open>\<^verbatim>\<open>iCartCtrl->getDOF(dof); dof=1.0; dof[1]=0.0; iCartCtrl->setDOF(dof,dof);\<close>\<close>

definition lock_dof1 :: "Env \<Rightarrow> Arm \<Rightarrow> Call list" where
  "lock_dof1 env arm = [GetDOF arm, SetDOF arm ((map (\<lambda>d. 1) (getDOF env arm))[1 := 0])]"

text \<open>The choice of the arm, written alike in \<^verbatim>\<open>push\<close> and \<^verbatim>\<open>draw\<close>: \<open>xd1\<close> is the position
  of the first candidate.\<close>

definition choose_arm :: "string \<Rightarrow> Vector \<Rightarrow> Arm" where
  "choose_arm armType xd1 =
     (if armType = ''selectable'' then (if 0 \<le> xd1 ! 1 then RightArm else LeftArm)
      else if armType = ''left'' then LeftArm
      else RightArm)"

section \<open>Push\<close>

text \<open>The frames of \<^verbatim>\<open>KarmaMotor::push\<close>: \<open>H0\<close> at the centroid, the two candidates \<open>H1\<close>
  (z-axis inward) and \<open>H2\<close> (z-axis outward) at \<open>radius\<close> along \<open>theta\<close>, and their variants
  moved out by \<open>epsilon\<close>.\<close>

definition base_H0 :: "Vector \<Rightarrow> Matrix" where
  "base_H0 c =
     puts zeroM [(1, 0, 1), (0, 1, - 1), (2, 2, 1),
                 (0, 3, c ! 0), (1, 3, c ! 1), (2, 3, c ! 2), (3, 3, 1)]"

definition epsilon :: real where
  "epsilon = 0.05"

definition push_H1 :: "real \<Rightarrow> real \<Rightarrow> Matrix" where
  "push_H1 theta radius =
     (let cs = cos (theta_rad theta); sn = sin (theta_rad theta)
      in puts zeroM [(0, 0, - sn), (1, 0, cs), (2, 1, - 1), (0, 2, - cs), (1, 2, - sn),
                     (0, 3, radius * cs), (1, 3, radius * sn), (3, 3, 1)])"

definition push_H2 :: "real \<Rightarrow> real \<Rightarrow> Matrix" where
  "push_H2 theta radius =
     (let cs = cos (theta_rad theta); sn = sin (theta_rad theta)
      in puts zeroM [(0, 0, sn), (1, 0, - cs), (2, 1, - 1), (0, 2, cs), (1, 2, sn),
                     (0, 3, radius * cs), (1, 3, radius * sn), (3, 3, 1)])"

definition add_eps :: "real \<Rightarrow> Matrix \<Rightarrow> Matrix" where
  "add_eps theta H =
     (let cs = cos (theta_rad theta); sn = sin (theta_rad theta)
      in puts H [(0, 3, H 0 3 + epsilon * cs), (1, 3, H 1 3 + epsilon * sn)])"

text \<open>\<^verbatim>\<open>H0*H*invFrame\<close>: back into the root frame, with the tool applied.\<close>

definition to_root :: "Vector \<Rightarrow> Matrix \<Rightarrow> Matrix \<Rightarrow> Matrix" where
  "to_root c frame H = mmul 4 (mmul 4 (base_H0 c) H) (SE3inv frame)"

text \<open>The candidate the pointers \<^verbatim>\<open>xd\<close> and \<^verbatim>\<open>od\<close> designate.\<close>

datatype Candidate = Cand1 | Cand2 | Cand1eps | Cand2eps

definition push_frame :: "Vector \<Rightarrow> real \<Rightarrow> real \<Rightarrow> Matrix \<Rightarrow> Candidate \<Rightarrow> Matrix" where
  "push_frame c theta radius frame k =
     (case k of
        Cand1 \<Rightarrow> to_root c frame (push_H1 theta radius)
      | Cand2 \<Rightarrow> to_root c frame (push_H2 theta radius)
      | Cand1eps \<Rightarrow> to_root c frame (add_eps theta (push_H1 theta radius))
      | Cand2eps \<Rightarrow> to_root c frame (add_eps theta (push_H2 theta radius)))"

definition push_xd :: "Vector \<Rightarrow> real \<Rightarrow> real \<Rightarrow> Matrix \<Rightarrow> Candidate \<Rightarrow> Vector" where
  "push_xd c theta radius frame k = position (push_frame c theta radius frame k)"

definition push_od :: "Env \<Rightarrow> Vector \<Rightarrow> real \<Rightarrow> real \<Rightarrow> Matrix \<Rightarrow> Candidate \<Rightarrow> Vector" where
  "push_od env c theta radius frame k = dcm2axis env (push_frame c theta radius frame k)"

definition push_arm :: "Vector \<Rightarrow> real \<Rightarrow> real \<Rightarrow> string \<Rightarrow> Matrix \<Rightarrow> Arm" where
  "push_arm c theta radius armType frame =
     choose_arm armType (push_xd c theta radius frame Cand1)"

text \<open>\<^verbatim>\<open>Hhat=axis2dcm(odhat); Hhat(0,3)=xdhat[0]; ...; d=dist(H-Hhat)\<close> for one candidate.\<close>

definition push_residual :: "Env \<Rightarrow> Arm \<Rightarrow> Matrix \<Rightarrow> real" where
  "push_residual env arm H =
     (case askForPose env arm (position H) (dcm2axis env H) of
        (xdhat, odhat, q) \<Rightarrow>
          dist_M (msub H (puts (axis2dcm env odhat)
                            [(0, 3, xdhat ! 0), (1, 3, xdhat ! 1), (2, 3, xdhat ! 2)])))"

text \<open>``compare solutions and choose the best'': \<open>th\<close> is \<^verbatim>\<open>_theta\<close>, \<open>d1\<close> and \<open>d2\<close> the two
  residuals.\<close>

definition push_select :: "real \<Rightarrow> Arm \<Rightarrow> real \<Rightarrow> real \<Rightarrow> Candidate" where
  "push_select th arm d1 d2 =
     (if \<bar>th - 90\<bar> < 45 then (if arm = RightArm then Cand1 else Cand2)
      else if \<bar>th + 90\<bar> < 45 then (if arm = RightArm then Cand2 else Cand1)
      else if d1 < d2 then Cand1
      else Cand2)"

text \<open>The ``increased radius'' substitution that follows.\<close>

definition push_increase_radius :: "real \<Rightarrow> Arm \<Rightarrow> Candidate \<Rightarrow> Candidate" where
  "push_increase_radius th arm k =
     (if arm = RightArm \<and> th < 0 \<and> k = Cand2 then Cand2eps
      else if arm = LeftArm \<and> th < 0 \<and> k = Cand1 then Cand1eps
      else k)"

definition push_candidate :: "real \<Rightarrow> Arm \<Rightarrow> real \<Rightarrow> real \<Rightarrow> Candidate" where
  "push_candidate th arm d1 d2 = push_increase_radius th arm (push_select th arm d1 d2)"

text \<open>The bounds \<open>(tmin, tmax)\<close> and the duration \<^verbatim>\<open>trajTime\<close> of the pushing segment. The test
  is on \<^verbatim>\<open>theta\<close> as received, not on \<^verbatim>\<open>_theta\<close>.\<close>

definition push_rmin :: real where
  "push_rmin = 0.04"

definition push_rmax :: real where
  "push_rmax = 0.18"

definition push_time_bounds :: "real \<Rightarrow> string \<Rightarrow> real \<times> real" where
  "push_time_bounds theta armType =
     (let (tmin, tmax) =
            (if \<bar>theta\<bar> < 10 \<or> \<bar>theta - 180\<bar> < 10 then (0.40, 0.60) else (0.50, 0.80))
      in if armType \<noteq> ''selectable'' then (tmin * 1.3, tmax * 1.3) else (tmin, tmax))"

definition push_trajTime :: "real \<Rightarrow> real \<Rightarrow> string \<Rightarrow> real" where
  "push_trajTime theta radius armType =
     (case push_time_bounds theta armType of
        (tmin, tmax) \<Rightarrow>
          max (min tmax (tmin + ((tmax - tmin) / (push_rmax - push_rmin)) * (radius - push_rmin)))
              tmin)"

text \<open>The four guarded movements of ``execute the movement'': above the chosen pose, onto it,
  through the object, and back.\<close>

definition push_through :: "Env \<Rightarrow> Vector \<Rightarrow> Matrix \<Rightarrow> Vector \<Rightarrow> Vector" where
  "push_through env c frame od =
     butlast (mvec 4 (setCol (axis2dcm env od) 3 (c @ [1]))
                     ((vscale (- 1) (getCol frame 3))[3 := 1]))"

definition push_segment ::
  "Env \<Rightarrow> Arm \<Rightarrow> Vector \<Rightarrow> real \<Rightarrow> real \<Rightarrow> string \<Rightarrow> Matrix \<Rightarrow> Vector \<Rightarrow> Vector \<Rightarrow> nat \<Rightarrow> Call list"
where
  "push_segment env arm c theta radius armType frame xd od k =
     (if interrupting env k then []
      else if k = 0 then
        [GoToPoseSync arm (vadd xd [0, 0, 0.1]) od 1.0, WaitMotionDone arm 0.1 4.0]
      else if k = 1 then
        [GoToPoseSync arm xd od 1.0, WaitMotionDone arm 0.1 4.0]
      else if k = 2 then
        [GoToPoseSync arm (push_through env c frame od) od (push_trajTime theta radius armType),
         WaitMotionDone arm 0.1 3.0]
      else
        [GoToPoseSync arm xd od 1.0, WaitMotionDone arm 0.1 2.0])"

text \<open>The candidate \<^verbatim>\<open>push\<close> settles on: both candidates are put to the controller of the
  chosen arm, and the residuals go to the comparison together with \<^verbatim>\<open>_theta\<close>.\<close>

definition push_chosen :: "Env \<Rightarrow> Vector \<Rightarrow> real \<Rightarrow> real \<Rightarrow> string \<Rightarrow> Matrix \<Rightarrow> Candidate" where
  "push_chosen env c theta radius armType frame =
     (let arm = push_arm c theta radius armType frame;
          d1 = push_residual env arm (push_frame c theta radius frame Cand1);
          d2 = push_residual env arm (push_frame c theta radius frame Cand2)
      in push_candidate (normalize_theta theta) arm d1 d2)"

text \<open>\<^verbatim>\<open>KarmaMotor::push\<close>: the new state (the arm in use) and the calls made.\<close>

definition push ::
  "Env \<Rightarrow> KarmaMotor \<Rightarrow> Vector \<Rightarrow> real \<Rightarrow> real \<Rightarrow> string \<Rightarrow> Matrix \<Rightarrow> KarmaMotor \<times> Call list"
where
  "push env st c theta radius armType frame =
     (let H1 = push_frame c theta radius frame Cand1;
          H2 = push_frame c theta radius frame Cand2;
          arm = push_arm c theta radius armType frame;
          st' = st\<lparr>iCartCtrl := Some arm\<rparr>;
          context = storeContext env arm;
          k = push_chosen env c theta radius armType frame;
          xd = push_xd c theta radius frame k;
          od = push_od env c theta radius frame k
      in (st',
          [StoreContext arm, TweakStraightness arm 10.0] @ changeElbowHeight st' arm
          @ lock_dof1 env arm
          @ [AskForPose arm (position H1) (dcm2axis env H1),
             AskForPose arm (position H2) (dcm2axis env H2)]
          @ concat (map (push_segment env arm c theta radius armType frame xd od) [0..<4])
          @ [RestoreContext arm context, DeleteContext arm context]))"

section \<open>Draw\<close>

text \<open>The frames of \<^verbatim>\<open>KarmaMotor::draw\<close> on the sagittal plane: \<open>H1\<close> at \<open>radius\<close> along
  \<open>theta\<close> from the projected centroid, \<open>H2\<close> further back by \<open>dist'\<close>.\<close>

definition c_sag :: "Vector \<Rightarrow> Vector" where
  "c_sag c = c[1 := 0]"

definition draw_H1 :: "real \<Rightarrow> real \<Rightarrow> Matrix" where
  "draw_H1 th_rad radius = puts (eye 4) [(0, 3, radius * cos th_rad), (1, 3, radius * sin th_rad)]"

definition draw_H2 :: "real \<Rightarrow> Matrix" where
  "draw_H2 dist' = puts (eye 4) [(1, 3, - dist')]"

definition draw_root1 :: "Vector \<Rightarrow> real \<Rightarrow> real \<Rightarrow> Matrix" where
  "draw_root1 c th_rad radius = mmul 4 (base_H0 (c_sag c)) (draw_H1 th_rad radius)"

definition draw_root2 :: "Vector \<Rightarrow> real \<Rightarrow> real \<Rightarrow> real \<Rightarrow> Matrix" where
  "draw_root2 c th_rad radius dist' =
     mmul 4 (mmul 4 (base_H0 (c_sag c)) (draw_H1 th_rad radius)) (draw_H2 dist')"

text \<open>``apply final axes'' in \<^verbatim>\<open>draw\<close>: the test reads \<^verbatim>\<open>iCartCtrl\<close> as the previous action
  left it, since the arm of this action is chosen later; \<^verbatim>\<open>Matrix R(3,3)\<close> starts filled
  with zeros.\<close>

definition draw_R :: "Arm option \<Rightarrow> Matrix" where
  "draw_R ctrl =
     (if ctrl = Some RightArm
      then puts zeroM [(0, 0, - 1), (2, 1, - 1), (1, 2, - 1)]
      else puts zeroM [(0, 0, - 1), (2, 1, - 1), (1, 2, - 1)])"

definition draw_sagittal1 :: "Arm option \<Rightarrow> Vector \<Rightarrow> real \<Rightarrow> real \<Rightarrow> Matrix" where
  "draw_sagittal1 ctrl c theta radius =
     setSubmatrix3 (draw_root1 c (theta_rad theta) radius) (draw_R ctrl)"

definition draw_sagittal2 :: "Arm option \<Rightarrow> Vector \<Rightarrow> real \<Rightarrow> real \<Rightarrow> real \<Rightarrow> Matrix" where
  "draw_sagittal2 ctrl c theta radius dist' =
     setSubmatrix3 (draw_root2 c (theta_rad theta) radius dist') (draw_R ctrl)"

text \<open>``recover the original place'': the rotation by \<open>ang\<close> about the downward axis, placed
  at the waypoint shifted by \<open>c[1]\<close>, applied to the waypoint's orientation.\<close>

definition recover_place :: "Env \<Rightarrow> real \<Rightarrow> Vector \<Rightarrow> Matrix \<Rightarrow> Matrix" where
  "recover_place env ang c H1 =
     mmul 4 (puts (axis2dcm env [0, 0, - 1, ang])
               [(0, 3, H1 0 3), (1, 3, H1 1 3 + c ! 1), (2, 3, H1 2 3)])
            (puts H1 [(0, 3, 0), (1, 3, 0), (2, 3, 0)])"

definition draw_in_place :: "Env \<Rightarrow> Vector \<Rightarrow> Matrix \<Rightarrow> Matrix" where
  "draw_in_place env c H =
     (if c ! 1 \<noteq> 0 then recover_place env (atan2 (c ! 1) \<bar>c ! 0\<bar>) c H else H)"

text \<open>The two waypoints \<^verbatim>\<open>draw\<close> hands to the controller, with the tool applied.\<close>

definition draw_pose1 :: "Env \<Rightarrow> Arm option \<Rightarrow> Vector \<Rightarrow> real \<Rightarrow> real \<Rightarrow> Matrix \<Rightarrow> Matrix" where
  "draw_pose1 env ctrl c theta radius frame =
     mmul 4 (draw_in_place env c (draw_sagittal1 ctrl c theta radius)) (SE3inv frame)"

definition draw_pose2 ::
  "Env \<Rightarrow> Arm option \<Rightarrow> Vector \<Rightarrow> real \<Rightarrow> real \<Rightarrow> real \<Rightarrow> Matrix \<Rightarrow> Matrix" where
  "draw_pose2 env ctrl c theta radius dist' frame =
     mmul 4 (draw_in_place env c (draw_sagittal2 ctrl c theta radius dist')) (SE3inv frame)"

text \<open>``simulate the movements'' in \<^verbatim>\<open>draw\<close>: the two queries and the quality.\<close>

definition draw_simulate :: "Env \<Rightarrow> Arm \<Rightarrow> Vector \<Rightarrow> Vector \<Rightarrow> Vector \<Rightarrow> Vector \<Rightarrow> real" where
  "draw_simulate env arm xd1 od1 xd2 od2 =
     (case askForPose env arm xd1 od1 of (xdhat1, odhat1, qdhat) \<Rightarrow>
      case askForPoseFrom env arm qdhat xd2 od2 of (xdhat2, odhat2, qdhat') \<Rightarrow>
        (let e_x1 = norm_v (vsub xd1 xdhat1);
             e_o1 = norm_v (vsub od1 odhat1);
             e_x2 = norm_v (vsub xd2 xdhat2);
             e_o2 = norm_v (vsub od2 odhat2);
             nearness_penalty = (if norm_v xdhat1 < 0.15 \<or> norm_v xdhat2 < 0.15 then 10.0 else 0.0)
         in e_x1 + e_o1 + e_x2 + e_o2 + nearness_penalty))"

definition simulate_calls :: "Env \<Rightarrow> Arm \<Rightarrow> Vector \<Rightarrow> Vector \<Rightarrow> Vector \<Rightarrow> Vector \<Rightarrow> Call list" where
  "simulate_calls env arm xd1 od1 xd2 od2 =
     (case askForPose env arm xd1 od1 of (xdhat1, odhat1, qdhat) \<Rightarrow>
        [AskForPose arm xd1 od1, AskForPoseFrom arm qdhat xd2 od2])"

text \<open>``execute the movements'': above the first waypoint, onto it, then to the second, the
  last with the duration \<open>t3\<close>.\<close>

definition draw_segment ::
  "Env \<Rightarrow> Arm \<Rightarrow> Vector \<Rightarrow> Vector \<Rightarrow> Vector \<Rightarrow> Vector \<Rightarrow> real \<Rightarrow> nat \<Rightarrow> Call list" where
  "draw_segment env arm xd1 od1 xd2 od2 t3 k =
     (if interrupting env k then []
      else if k = 0 then
        [GoToPoseSync arm (vadd xd1 [0, 0, 0.05]) od1 2.0, WaitMotionDone arm 0.1 5.0]
      else if k = 1 then
        [GoToPoseSync arm xd1 od1 1.5, WaitMotionDone arm 0.1 5.0]
      else
        [GoToPoseSync arm xd2 od2 t3, WaitMotionDone arm 0.1 5.0])"

text \<open>\<^verbatim>\<open>KarmaMotor::draw\<close>: the new state, the calls made and the returned quality.\<close>

definition draw ::
  "Env \<Rightarrow> KarmaMotor \<Rightarrow> bool \<Rightarrow> Vector \<Rightarrow> real \<Rightarrow> real \<Rightarrow> real \<Rightarrow> string \<Rightarrow> Matrix
     \<Rightarrow> KarmaMotor \<times> Call list \<times> real"
where
  "draw env st simulation c theta radius dist' armType frame =
     (let arm = choose_arm armType (position (draw_sagittal1 (iCartCtrl st) c theta radius));
          st' = st\<lparr>iCartCtrl := Some arm\<rparr>;
          H1 = draw_pose1 env (iCartCtrl st) c theta radius frame;
          H2 = draw_pose2 env (iCartCtrl st) c theta radius dist' frame;
          xd1 = position H1; od1 = dcm2axis env H1;
          xd2 = position H2; od2 = dcm2axis env H2;
          context = storeContext env arm
      in (st',
          [StoreContext arm, TweakStraightness arm 30.0] @ changeElbowHeight st' arm
          @ lock_dof1 env arm
          @ (if simulation then simulate_calls env arm xd1 od1 xd2 od2
             else concat (map (draw_segment env arm xd1 od1 xd2 od2 3.5) [0..<3]))
          @ [RestoreContext arm context, DeleteContext arm context],
          if simulation then draw_simulate env arm xd1 od1 xd2 od2 else 0.0))"

section \<open>Draw with a hand pose\<close>

text \<open>\<^verbatim>\<open>KarmaMotor::draw2\<close>. The arm is chosen first, from the centroid; the final axes are
  \<^verbatim>\<open>HR*Ax*Az\<close> with the angles \<open>fi\<close> and \<open>psi\<close> of the pose and the arm (C++ \<^verbatim>\<open>float\<close>, read
  as reals).\<close>

definition draw2_angles :: "Arm \<Rightarrow> int \<Rightarrow> real \<times> real" where
  "draw2_angles arm pose =
     (if arm = RightArm then (if pose = 0 then (0, - 50) else (120, - 30))
      else (if pose = 0 then (0, - 50) else (- 120, - 30)))"

definition draw2_R :: "Arm \<Rightarrow> int \<Rightarrow> Matrix" where
  "draw2_R arm pose =
     (case draw2_angles arm pose of (fi, psi) \<Rightarrow>
        (let fi_rad = CTRL_DEG2RAD * fi; psi_rad = CTRL_DEG2RAD * psi;
             Ax = puts zeroM [(0, 0, 1), (1, 1, cos fi_rad), (1, 2, sin fi_rad),
                              (2, 1, - sin fi_rad), (2, 2, cos fi_rad)];
             Az = puts zeroM [(0, 0, cos psi_rad), (0, 1, sin psi_rad),
                              (1, 0, - sin psi_rad), (1, 1, cos psi_rad), (2, 2, 1)];
             HR = puts zeroM [(0, 0, - 1), (1, 2, - 1), (2, 1, - 1)]
         in mmul 3 (mmul 3 HR Ax) Az))"

definition draw2_in_place :: "Env \<Rightarrow> Vector \<Rightarrow> Matrix \<Rightarrow> Matrix" where
  "draw2_in_place env c H = (if c ! 1 \<noteq> 0 then recover_place env 0 c H else H)"

definition draw2_pose1 :: "Env \<Rightarrow> Arm \<Rightarrow> int \<Rightarrow> Vector \<Rightarrow> real \<Rightarrow> real \<Rightarrow> Matrix \<Rightarrow> Matrix" where
  "draw2_pose1 env arm pose c theta radius frame =
     mmul 4 (draw2_in_place env c
               (setSubmatrix3 (draw_root1 c (CTRL_DEG2RAD * (theta - 90)) radius)
                              (draw2_R arm pose)))
            (SE3inv frame)"

definition draw2_pose2 ::
  "Env \<Rightarrow> Arm \<Rightarrow> int \<Rightarrow> Vector \<Rightarrow> real \<Rightarrow> real \<Rightarrow> real \<Rightarrow> Matrix \<Rightarrow> Matrix" where
  "draw2_pose2 env arm pose c theta radius dist' frame =
     mmul 4 (draw2_in_place env c
               (setSubmatrix3 (draw_root2 c (CTRL_DEG2RAD * (theta - 90)) radius dist')
                              (draw2_R arm pose)))
            (SE3inv frame)"

definition draw2_simulate :: "Env \<Rightarrow> Arm \<Rightarrow> Vector \<Rightarrow> Vector \<Rightarrow> Vector \<Rightarrow> Vector \<Rightarrow> real" where
  "draw2_simulate env arm xd1 od1 xd2 od2 =
     (case askForPose env arm xd1 od1 of (xdhat1, odhat1, qdhat) \<Rightarrow>
      case askForPoseFrom env arm qdhat xd2 od2 of (xdhat2, odhat2, qdhat') \<Rightarrow>
        (let e_x1 = norm_v (vsub xd1 xdhat1);
             e_o1 = norm_v (vsub od1 odhat1);
             e_x2 = norm_v (vsub xd2 xdhat2);
             e_o2 = norm_v (vsub od2 odhat2);
             nearness_penalty = (if norm_v xdhat2 < 0.15 then 10.0 else 0.0)
         in e_x1 + e_o1 + e_x2 + e_o2 + nearness_penalty))"

definition draw2 ::
  "Env \<Rightarrow> KarmaMotor \<Rightarrow> bool \<Rightarrow> int \<Rightarrow> Vector \<Rightarrow> real \<Rightarrow> real \<Rightarrow> real \<Rightarrow> string \<Rightarrow> Matrix
     \<Rightarrow> KarmaMotor \<times> Call list \<times> real"
where
  "draw2 env st simulation pose c theta radius dist' armType frame =
     (let arm = choose_arm armType c;
          st' = st\<lparr>iCartCtrl := Some arm\<rparr>;
          H1 = draw2_pose1 env arm pose c theta radius frame;
          H2 = draw2_pose2 env arm pose c theta radius dist' frame;
          xd1 = position H1; od1 = dcm2axis env H1;
          xd2 = position H2; od2 = dcm2axis env H2;
          context = storeContext env arm
      in (st',
          [StoreContext arm, TweakStraightness arm 30.0]
          @ lock_dof1 env arm
          @ (if simulation then simulate_calls env arm xd1 od1 xd2 od2
             else concat (map (draw_segment env arm xd1 od1 xd2 od2 (mov_time st)) [0..<3]))
          @ [RestoreContext arm context, DeleteContext arm context],
          if simulation then draw2_simulate env arm xd1 od1 xd2 od2 else 0.0))"

section \<open>The command switch\<close>

text \<open>The cases of \<^verbatim>\<open>KarmaMotor::respond\<close>, each giving the new state, the reply and the
  calls made on the controllers.\<close>

definition centroid :: "Bottle \<Rightarrow> nat \<Rightarrow> Vector" where
  "centroid payload i =
     [asDouble (get payload i), asDouble (get payload (i + 1)), asDouble (get payload (i + 2))]"

definition respond_push :: "Env \<Rightarrow> KarmaMotor \<Rightarrow> Bottle \<Rightarrow> KarmaMotor \<times> Bottle \<times> Call list" where
  "respond_push env st payload =
     (if 5 \<le> length payload then
        (case push env st (centroid payload 0) (asDouble (get payload 3))
                (asDouble (get payload 4)) (pushHand st) (toolFrame st) of
           (st', calls) \<Rightarrow> (st', [ack], calls))
      else (st, [], []))"

definition respond_draw ::
  "Env \<Rightarrow> KarmaMotor \<Rightarrow> bool \<Rightarrow> Bottle \<Rightarrow> KarmaMotor \<times> Bottle \<times> Call list" where
  "respond_draw env st virtual payload =
     (if 6 \<le> length payload then
        (case draw env st virtual (centroid payload 0) (asDouble (get payload 3))
                (asDouble (get payload 4)) (asDouble (get payload 5))
                (pushHand st) (toolFrame st) of
           (st', calls, res) \<Rightarrow> (st', [ack] @ (if virtual then [VDouble res] else []), calls))
      else (st, [], []))"

text \<open>\<^verbatim>\<open>pose=payload.get(0).asDouble()\<close> into an \<^verbatim>\<open>int\<close>: the fraction is dropped.\<close>

definition to_int :: "real \<Rightarrow> int" where
  "to_int d = (if 0 \<le> d then \<lfloor>d\<rfloor> else \<lceil>d\<rceil>)"

definition respond_draw2 ::
  "Env \<Rightarrow> KarmaMotor \<Rightarrow> bool \<Rightarrow> Bottle \<Rightarrow> KarmaMotor \<times> Bottle \<times> Call list" where
  "respond_draw2 env st virtual payload =
     (if 7 \<le> length payload then
        (case draw2 env st virtual (to_int (asDouble (get payload 0))) (centroid payload 1)
                (asDouble (get payload 4)) (asDouble (get payload 5))
                (asDouble (get payload 6)) (pushHand st) (toolFrame st) of
           (st', calls, res) \<Rightarrow> (st', [ack] @ (if virtual then [VDouble res] else []), calls))
      else (st, [], []))"

definition tool_point :: "Bottle \<Rightarrow> Vector" where
  "tool_point payload =
     [asDouble (get payload 1), asDouble (get payload 2), asDouble (get payload 3), 1.0]"

definition tool_get :: "KarmaMotor \<Rightarrow> Bottle" where
  "tool_get st =
     [ack, VString (pushHand st), VDouble (toolFrame st 0 3), VDouble (toolFrame st 1 3),
      VDouble (toolFrame st 2 3)]"

definition tool_remove :: "KarmaMotor \<Rightarrow> KarmaMotor" where
  "tool_remove st = st\<lparr>pushHand := ''selectable'', toolFrame := eye 4\<rparr>"

definition respond_tool :: "Env \<Rightarrow> KarmaMotor \<Rightarrow> Bottle \<Rightarrow> KarmaMotor \<times> Bottle \<times> Call list" where
  "respond_tool env st command =
     (if 1 < length command then
        (let subcommand = tl command; tag = asVocab (get subcommand 0) in
         if tag = Vocab_encode ''attach'' then
           (let payload = tl subcommand in
            if 4 \<le> length payload then
              (let point = tool_point payload;
                   r = [0, 0, - 1, atan2 (- (point ! 1)) (point ! 0)]
               in (st\<lparr>pushHand := asString (get payload 0),
                      toolFrame := setCol (axis2dcm env r) 3 point\<rparr>, [ack], []))
            else (st, [], []))
         else if tag = Vocab_encode ''get'' then (st, tool_get st, [])
         else if tag = Vocab_encode ''remove'' then (tool_remove st, [ack], [])
         else (st, [], []))
      else (st, [], []))"

definition respond_toop :: "Env \<Rightarrow> KarmaMotor \<Rightarrow> Bottle \<Rightarrow> KarmaMotor \<times> Bottle \<times> Call list" where
  "respond_toop env st command =
     (if 1 < length command then
        (let subcommand = tl command; tag = asVocab (get subcommand 0) in
         if tag = Vocab_encode ''attach'' then
           (let payload = tl subcommand in
            if 4 \<le> length payload then
              (let point = tool_point payload
               in (st\<lparr>pushHand := asString (get payload 0),
                      toolFrame := setCol (eye 4) 3 point\<rparr>, [ack], []))
            else (st, [], []))
         else if tag = Vocab_encode ''get'' then (st, tool_get st, [])
         else if tag = Vocab_encode ''remove'' then (tool_remove st, [ack], [])
         else (st, [], []))
      else (st, [], []))"

text \<open>\<^verbatim>\<open>interrupting=false; return true;\<close> after the switch, which every case reaches,
  also the cases that drop their request.\<close>

definition clear_interrupting ::
  "KarmaMotor \<times> Bottle \<times> Call list \<Rightarrow> KarmaMotor \<times> Bottle \<times> Call list" where
  "clear_interrupting r =
     (case r of (st', reply, calls) \<Rightarrow> (st'\<lparr>interrupting_flag := False\<rparr>, reply, calls))"

text \<open>The switch itself, for the commands \<^verbatim>\<open>push\<close>, \<^verbatim>\<open>draw\<close>, \<^verbatim>\<open>vdra\<close>, \<^verbatim>\<open>tool\<close>, \<^verbatim>\<open>drap\<close>,
  \<^verbatim>\<open>vdrp\<close> and \<^verbatim>\<open>toop\<close>. The result is \<open>None\<close> for the commands left out of this
  development: \<^verbatim>\<open>find\<close>, \<^verbatim>\<open>pusp\<close> and those passed on to \<^verbatim>\<open>RFModule::respond\<close>.\<close>

definition respond :: "Env \<Rightarrow> KarmaMotor \<Rightarrow> Bottle \<Rightarrow> (KarmaMotor \<times> Bottle \<times> Call list) option" where
  "respond env st command =
     (let cmd = asVocab (get command 0) in
      if cmd = Vocab_encode ''push'' then
        Some (clear_interrupting (respond_push env st (tl command)))
      else if cmd = Vocab_encode ''draw'' \<or> cmd = Vocab_encode ''vdra'' then
        Some (clear_interrupting
                (respond_draw env st (cmd = Vocab_encode ''vdra'') (tl command)))
      else if cmd = Vocab_encode ''tool'' then
        Some (clear_interrupting (respond_tool env st command))
      else if cmd = Vocab_encode ''drap'' \<or> cmd = Vocab_encode ''vdrp'' then
        Some (clear_interrupting
                (respond_draw2 env st (cmd = Vocab_encode ''vdrp'') (tl command)))
      else if cmd = Vocab_encode ''toop'' then
        Some (clear_interrupting (respond_toop env st command))
      else None)"

section \<open>Gazing at the tool tip\<close>












section \<open>A controller that always succeeds\<close>

text \<open>To run the actions on concrete requests: collaborators that report every requested
  pose as achieved, give the token 0 and ten joints, and convert between rotations and
  axis-angle vectors by constants; \<open>flag\<close> is the course of \<^verbatim>\<open>interrupting\<close>. The state is
  the one \<^verbatim>\<open>configure\<close> leaves when no option is given, with the flag cleared.\<close>

definition obedient :: "(nat \<Rightarrow> bool) \<Rightarrow> Env" where
  "obedient flag =
     \<lparr>dcm2axis = (\<lambda>H. [0, 0, 1, 0]), axis2dcm = (\<lambda>v. eye 4),
      askForPose = (\<lambda>arm x od. (x, od, [])),
      askForPoseFrom = (\<lambda>arm q x od. (x, od, q)),
      getDOF = (\<lambda>arm. replicate 10 1), storeContext = (\<lambda>arm. 0), interrupting = flag\<rparr>"

definition configured :: KarmaMotor where
  "configured =
     \<lparr>pushHand = ''selectable'', toolFrame = eye 4, iCartCtrl = None,
      interrupting_flag = False, elbow_set = False,
      elbow_height = 0, elbow_weight = 0, mov_time = 1.0\<rparr>"

section \<open>Properties of the angle\<close>

lemma atan2_sin_cos:
  assumes "- pi < t" and "t \<le> pi"
  shows "atan2 (sin t) (cos t) = t"
proof -
  consider "- (pi / 2) < t" "t < pi / 2" | "pi / 2 < t" | "t < - (pi / 2)"
    | "t = pi / 2" | "t = - (pi / 2)"
    by linarith
  then show ?thesis
  proof cases
    case 1
    then have "0 < cos t" by (rule cos_gt_zero_pi)
    then have "atan2 (sin t) (cos t) = arctan (tan t)" by (simp add: atan2_def tan_def)
    also have "arctan (tan t) = t" using 1 by (rule arctan_tan)
    finally show ?thesis .
  next
    case 2
    have c: "cos t = - cos (t - pi)" by simp
    have r: "- (pi / 2) < t - pi" "t - pi < pi / 2" using 2 assms by linarith+
    have "0 < cos (t - pi)" using r by (rule cos_gt_zero_pi)
    then have neg: "cos t < 0" using c by linarith
    have "0 \<le> t" using 2 pi_gt_zero by linarith
    then have pos: "0 \<le> sin t" using assms(2) by (rule sin_ge_zero)
    have "atan2 (sin t) (cos t) = arctan (tan t) + pi"
      using neg pos by (simp add: atan2_def tan_def)
    also have "tan t = tan (t - pi)" using tan_periodic_pi [of "t - pi"] by simp
    also have "arctan (tan (t - pi)) = t - pi" using r by (rule arctan_tan)
    finally show ?thesis by simp
  next
    case 3
    have c: "cos t = - cos (t + pi)" by simp
    have r: "- (pi / 2) < t + pi" "t + pi < pi / 2" using 3 assms by linarith+
    have "0 < cos (t + pi)" using r by (rule cos_gt_zero_pi)
    then have neg: "cos t < 0" using c by linarith
    have "0 < - t" "- t < pi" using 3 assms pi_gt_zero by linarith+
    then have "0 < sin (- t)" by (rule sin_gt_zero)
    then have sneg: "sin t < 0" by simp
    have "atan2 (sin t) (cos t) = arctan (tan t) - pi"
      using neg sneg by (simp add: atan2_def tan_def)
    also have "tan t = tan (t + pi)" by simp
    also have "arctan (tan (t + pi)) = t + pi" using r by (rule arctan_tan)
    finally show ?thesis by simp
  next
    case 4
    have "atan2 (sin (pi / 2)) (cos (pi / 2)) = pi / 2" by (simp add: atan2_def)
    then show ?thesis unfolding 4 .
  next
    case 5
    have "atan2 (sin (- (pi / 2))) (cos (- (pi / 2))) = - (pi / 2)" by (simp add: atan2_def)
    then show ?thesis unfolding 5 .
  qed
qed

lemma normalize_theta_fixed:
  assumes "- 180 < theta" and "theta \<le> 180"
  shows "normalize_theta theta = theta"
proof -
  have p: "0 < pi" by simp
  have "(pi / 180) * (- 180) < (pi / 180) * theta"
    using assms(1) p by (intro mult_strict_left_mono) simp_all
  then have lo: "- pi < theta_rad theta"
    by (simp add: theta_rad_def CTRL_DEG2RAD_def)
  have "(pi / 180) * theta \<le> (pi / 180) * 180"
    using assms(2) p by (intro mult_left_mono) simp_all
  then have hi: "theta_rad theta \<le> pi"
    by (simp add: theta_rad_def CTRL_DEG2RAD_def)
  have "atan2 (sin (theta_rad theta)) (cos (theta_rad theta)) = theta_rad theta"
    using lo hi by (rule atan2_sin_cos)
  then have "normalize_theta theta = CTRL_RAD2DEG * theta_rad theta"
    by (simp only: normalize_theta_def)
  also have "\<dots> = theta"
    by (simp add: CTRL_RAD2DEG_def theta_rad_def CTRL_DEG2RAD_def)
  finally show ?thesis .
qed

section \<open>Evaluating small ranges\<close>

lemma upt_0_4: "[0..<4] = [0, 1, 2, 3]"
  by (simp add: upt_rec)

lemma upt_0_3: "[0..<3] = [0, 1, 2]"
  by (simp add: upt_rec)

section \<open>The candidate near the singular angles\<close>

lemma push_candidate_near_plus90:
  "\<bar>th - 90\<bar> < 45 \<Longrightarrow>
     push_candidate th arm d1 d2 = (if arm = RightArm then Cand1 else Cand2)"
  by (cases arm) (auto simp: push_candidate_def push_select_def push_increase_radius_def)

lemma push_candidate_near_minus90:
  "\<bar>th + 90\<bar> < 45 \<Longrightarrow>
     push_candidate th arm d1 d2 = (if arm = RightArm then Cand2eps else Cand1eps)"
  by (cases arm) (auto simp: push_candidate_def push_select_def push_increase_radius_def)

text \<open>
  Claim C1, as amended. When \<^verbatim>\<open>_theta\<close> is within 45 degrees of 90, a push takes the first
  candidate with the right arm and the second with the left arm; when \<^verbatim>\<open>_theta\<close> is within
  45 degrees of -90 it takes the second candidate with the right arm and the first with
  the left arm, both in their variant of increased radius. In both bands the choice is a
  function of the arm and of the band, whatever the controller answers to the two
  \<^verbatim>\<open>askForPose\<close> queries.
\<close>

theorem push_singular_choice:
  "(\<bar>normalize_theta theta - 90\<bar> < 45 \<longrightarrow>
      push_chosen env c theta radius armType frame =
        (if push_arm c theta radius armType frame = RightArm then Cand1 else Cand2))
   \<and> (\<bar>normalize_theta theta + 90\<bar> < 45 \<longrightarrow>
      push_chosen env c theta radius armType frame =
        (if push_arm c theta radius armType frame = RightArm then Cand2eps else Cand1eps))"
  by (simp add: push_chosen_def Let_def push_candidate_near_plus90 push_candidate_near_minus90)

theorem push_singular_choice_witness:
  "\<bar>normalize_theta 90 - 90\<bar> < 45
   \<and> push_chosen (obedient (\<lambda>k. False)) [0.3, 0.1, 0] 90 0.1 ''left'' (eye 4) = Cand2
   \<and> \<bar>normalize_theta (- 90) + 90\<bar> < 45
   \<and> push_chosen (obedient (\<lambda>k. False)) [0.3, 0.1, 0] (- 90) 0.1 ''left'' (eye 4) = Cand1eps"
  using push_singular_choice [where theta = "90" and env = "obedient (\<lambda>k. False)"
      and c = "[0.3, 0.1, 0]" and radius = "0.1" and armType = "''left''" and frame = "eye 4"]
    push_singular_choice [where theta = "- 90" and env = "obedient (\<lambda>k. False)"
      and c = "[0.3, 0.1, 0]" and radius = "0.1" and armType = "''left''" and frame = "eye 4"]
  by (simp add: normalize_theta_fixed push_arm_def choose_arm_def)

text \<open>
  Claim C1, as stated, fails: the candidate is not chosen by the arm alone. Both 90 and
  -90 degrees are singular angles. For the push at centroid (0.3, 0.1, 0) with radius
  0.1, the right arm takes the first candidate at 90 degrees and the second (with
  increased radius) at -90 degrees, and the left arm the reverse.
\<close>

theorem push_singular_not_by_arm_alone:
  "\<bar>normalize_theta 90 - 90\<bar> < 45 \<and> \<bar>normalize_theta (- 90) + 90\<bar> < 45
   \<and> push_chosen (obedient (\<lambda>k. False)) [0.3, 0.1, 0] 90 0.1 ''right'' (eye 4) = Cand1
   \<and> push_chosen (obedient (\<lambda>k. False)) [0.3, 0.1, 0] (- 90) 0.1 ''right'' (eye 4) = Cand2eps
   \<and> push_chosen (obedient (\<lambda>k. False)) [0.3, 0.1, 0] 90 0.1 ''left'' (eye 4) = Cand2
   \<and> push_chosen (obedient (\<lambda>k. False)) [0.3, 0.1, 0] (- 90) 0.1 ''left'' (eye 4) = Cand1eps"
  by (simp add: normalize_theta_fixed push_chosen_def Let_def push_arm_def choose_arm_def
      push_candidate_def push_select_def push_increase_radius_def)

section \<open>Choice of the arm in a push\<close>

lemma push_xd_identity_tool:
  "push_xd [cx, cy, cz] 0 radius (eye 4) Cand1 ! Suc 0 = cy + radius"
  by (simp add: push_xd_def push_frame_def to_root_def position_def getCol_def mmul_def base_H0_def
      push_H1_def puts_def put_def zeroM_def SE3inv_def eye_def theta_rad_def Let_def upt_0_4)

text \<open>
  Claim C8. In a push with the arm \<^verbatim>\<open>selectable\<close>, the right arm is used exactly when the
  lateral coordinate \<^verbatim>\<open>xd1[1]\<close> of the first candidate, in the root frame, is not
  negative, and the left arm exactly when it is negative. With the arm given as \<^verbatim>\<open>left\<close>
  or \<^verbatim>\<open>right\<close> that arm is used, wherever the candidate lies. The arm found this way is
  the one \<^verbatim>\<open>iCartCtrl\<close> points to after the push.
\<close>

theorem push_arm_selection:
  "(armType = ''selectable'' \<longrightarrow>
      (push_arm c theta radius armType frame = RightArm
         \<longleftrightarrow> 0 \<le> push_xd c theta radius frame Cand1 ! 1)
      \<and> (push_arm c theta radius armType frame = LeftArm
         \<longleftrightarrow> push_xd c theta radius frame Cand1 ! 1 < 0))
   \<and> (armType = ''left'' \<longrightarrow> push_arm c theta radius armType frame = LeftArm)
   \<and> (armType = ''right'' \<longrightarrow> push_arm c theta radius armType frame = RightArm)
   \<and> iCartCtrl (fst (push env st c theta radius armType frame))
       = Some (push_arm c theta radius armType frame)"
  by (auto simp: push_arm_def choose_arm_def push_def Let_def)

theorem push_arm_selection_witness:
  "push_xd [0.3, 0.1, 0] 0 0.1 (eye 4) Cand1 ! 1 = 0.2
   \<and> push_arm [0.3, 0.1, 0] 0 0.1 ''selectable'' (eye 4) = RightArm
   \<and> push_xd [0.3, - 0.3, 0] 0 0.1 (eye 4) Cand1 ! 1 = - 0.2
   \<and> push_arm [0.3, - 0.3, 0] 0 0.1 ''selectable'' (eye 4) = LeftArm
   \<and> push_arm [0.3, 0.1, 0] 0 0.1 ''left'' (eye 4) = LeftArm
   \<and> push_arm [0.3, - 0.3, 0] 0 0.1 ''right'' (eye 4) = RightArm"
  using push_arm_selection [where armType = "''selectable''" and c = "[0.3, 0.1, 0]"
      and theta = 0 and radius = "0.1" and frame = "eye 4"]
    push_arm_selection [where armType = "''selectable''" and c = "[0.3, - 0.3, 0]"
      and theta = 0 and radius = "0.1" and frame = "eye 4"]
    push_arm_selection [where armType = "''left''" and c = "[0.3, 0.1, 0]"
      and theta = 0 and radius = "0.1" and frame = "eye 4"]
    push_arm_selection [where armType = "''right''" and c = "[0.3, - 0.3, 0]"
      and theta = 0 and radius = "0.1" and frame = "eye 4"]
  by (simp add: push_xd_identity_tool)

section \<open>Interrupting a push\<close>

lemma push_segment_motions: "length (filter is_motion (push_segment env arm c theta radius armType frame xd od j)) \<le> 1"
  by (simp add: push_segment_def)

lemma push_segments_cut:
  assumes "\<forall>j. k \<le> j \<and> j < 4 \<longrightarrow> interrupting env j"
  shows "concat (map (push_segment env arm c theta radius armType frame xd od) [0..<4])
       = concat (map (push_segment env arm c theta radius armType frame xd od) [0..<min k 4])"
proof -
  have e: "\<And>j. k \<le> j \<Longrightarrow> j < 4 \<Longrightarrow> push_segment env arm c theta radius armType frame xd od j = []"
    using assms by (simp add: push_segment_def)
  have "[0..<4] = [0..<min k 4] @ [min k 4..<4]"
    by (metis le_add_diff_inverse min.cobounded2 upt_add_eq_append zero_le)
  moreover have "concat (map (push_segment env arm c theta radius armType frame xd od) [min k 4..<4]) = []"
    using e by auto
  ultimately show ?thesis by (metis append_Nil2 concat_append map_append)
qed

lemma concat_motions_bound:
  "length (filter is_motion (concat (map (push_segment env arm c theta radius armType frame xd od) [0..<n]))) \<le> n"
proof (induction n)
  case 0
  then show ?case by simp
next
  case (Suc n)
  have "length (filter is_motion (push_segment env arm c theta radius armType frame xd od n)) \<le> 1"
    by (rule push_segment_motions)
  with Suc show ?case by simp
qed

lemma push_segment_no_context:
  "filter is_restore (push_segment env arm c theta radius armType frame xd od j) = []"
  "filter is_delete (push_segment env arm c theta radius armType frame xd od j) = []"
  "filter is_store (push_segment env arm c theta radius armType frame xd od j) = []"
  by (simp_all add: push_segment_def)

lemma push_calls:
  "snd (push env st c theta radius armType frame) =
     (let arm = push_arm c theta radius armType frame;
          k = push_chosen env c theta radius armType frame
      in [StoreContext arm, TweakStraightness arm 10.0]
         @ changeElbowHeight (st\<lparr>iCartCtrl := Some arm\<rparr>) arm @ lock_dof1 env arm
         @ [AskForPose arm (push_xd c theta radius frame Cand1) (push_od env c theta radius frame Cand1),
            AskForPose arm (push_xd c theta radius frame Cand2) (push_od env c theta radius frame Cand2)]
         @ concat (map (push_segment env arm c theta radius armType frame
                          (push_xd c theta radius frame k) (push_od env c theta radius frame k)) [0..<4])
         @ [RestoreContext arm (storeContext env arm), DeleteContext arm (storeContext env arm)])"
  by (simp add: push_def Let_def push_xd_def push_od_def)

lemma push_segments_no_context:
  "filter is_restore (concat (map (push_segment env arm c theta radius armType frame xd od) ns)) = []"
  "filter is_delete (concat (map (push_segment env arm c theta radius armType frame xd od) ns)) = []"
  "filter is_store (concat (map (push_segment env arm c theta radius armType frame xd od) ns)) = []"
  by (induction ns) (simp_all add: push_segment_no_context)

text \<open>
  Claim C5. Every run of a push stores the arm's context once and, as its last calls,
  restores and deletes that same context once each. If the flag \<^verbatim>\<open>interrupting\<close> reads as
  set at the test before segment \<open>k\<close> (counted from 0) and at every later test, the motion
  commands issued are those of the segments before \<open>k\<close> only, at most \<open>k\<close> of them: no
  later segment issues one.
\<close>

theorem push_cancelled_releases_once:
  "filter is_store (snd (push env st c theta radius armType frame))
     = [StoreContext (push_arm c theta radius armType frame)]
   \<and> filter is_restore (snd (push env st c theta radius armType frame))
     = [RestoreContext (push_arm c theta radius armType frame)
          (storeContext env (push_arm c theta radius armType frame))]
   \<and> filter is_delete (snd (push env st c theta radius armType frame))
     = [DeleteContext (push_arm c theta radius armType frame)
          (storeContext env (push_arm c theta radius armType frame))]
   \<and> last (snd (push env st c theta radius armType frame))
     = DeleteContext (push_arm c theta radius armType frame)
          (storeContext env (push_arm c theta radius armType frame))
   \<and> ((\<forall>j. k \<le> j \<and> j < 4 \<longrightarrow> interrupting env j) \<longrightarrow>
       filter is_motion (snd (push env st c theta radius armType frame))
         = filter is_motion (concat (map (push_segment env (push_arm c theta radius armType frame)
              c theta radius armType frame
              (push_xd c theta radius frame (push_chosen env c theta radius armType frame))
              (push_od env c theta radius frame (push_chosen env c theta radius armType frame)))
              [0..<min k 4]))
       \<and> length (filter is_motion (snd (push env st c theta radius armType frame))) \<le> k)"
proof -
  let ?arm = "push_arm c theta radius armType frame"
  let ?k = "push_chosen env c theta radius armType frame"
  let ?seg = "push_segment env ?arm c theta radius armType frame
                (push_xd c theta radius frame ?k) (push_od env c theta radius frame ?k)"
  let ?calls = "snd (push env st c theta radius armType frame)"
  have 1: "filter is_store ?calls = [StoreContext ?arm]"
    by (simp add: push_calls Let_def changeElbowHeight_def lock_dof1_def push_segments_no_context)
  have 2: "filter is_restore ?calls = [RestoreContext ?arm (storeContext env ?arm)]"
    by (simp add: push_calls Let_def changeElbowHeight_def lock_dof1_def push_segments_no_context)
  have 3: "filter is_delete ?calls = [DeleteContext ?arm (storeContext env ?arm)]"
    by (simp add: push_calls Let_def changeElbowHeight_def lock_dof1_def push_segments_no_context)
  have 4: "last ?calls = DeleteContext ?arm (storeContext env ?arm)"
    by (simp add: push_calls Let_def)
  have m: "filter is_motion ?calls = filter is_motion (concat (map ?seg [0..<4]))"
    by (simp add: push_calls Let_def changeElbowHeight_def lock_dof1_def)
  have 5: "filter is_motion ?calls = filter is_motion (concat (map ?seg [0..<min k 4]))
           \<and> length (filter is_motion ?calls) \<le> k"
    if h: "\<forall>j. k \<le> j \<and> j < 4 \<longrightarrow> interrupting env j"
  proof -
    have e: "filter is_motion ?calls = filter is_motion (concat (map ?seg [0..<min k 4]))"
      using m push_segments_cut [OF h] by simp
    have "length (filter is_motion (concat (map ?seg [0..<min k 4]))) \<le> min k 4"
      by (rule concat_motions_bound)
    then show ?thesis using e by simp
  qed
  show ?thesis using 1 2 3 4 5 by blast
qed

theorem push_cancelled_releases_once_witness:
  "\<not> interrupting (obedient (\<lambda>j. 2 \<le> j)) 0 \<and> \<not> interrupting (obedient (\<lambda>j. 2 \<le> j)) 1
   \<and> interrupting (obedient (\<lambda>j. 2 \<le> j)) 2 \<and> interrupting (obedient (\<lambda>j. 2 \<le> j)) 3
   \<and> length (filter is_motion
        (snd (push (obedient (\<lambda>j. 2 \<le> j)) configured [0.3, 0.1, 0] 0 0.1 ''selectable'' (eye 4)))) = 2
   \<and> filter is_restore
        (snd (push (obedient (\<lambda>j. 2 \<le> j)) configured [0.3, 0.1, 0] 0 0.1 ''selectable'' (eye 4)))
       = [RestoreContext RightArm 0]
   \<and> filter is_delete
        (snd (push (obedient (\<lambda>j. 2 \<le> j)) configured [0.3, 0.1, 0] 0 0.1 ''selectable'' (eye 4)))
       = [DeleteContext RightArm 0]"
proof -
  have h: "\<forall>j. 2 \<le> j \<and> j < 4 \<longrightarrow> interrupting (obedient (\<lambda>j. 2 \<le> j)) j"
    by (simp add: obedient_def)
  have a: "push_arm [0.3, 0.1, 0] 0 0.1 ''selectable'' (eye 4) = RightArm"
    by (simp add: push_arm_def choose_arm_def push_xd_identity_tool)
  have s: "storeContext (obedient (\<lambda>j. 2 \<le> j)) RightArm = 0"
    by (simp add: obedient_def)
  have i: "interrupting (obedient (\<lambda>j. 2 \<le> j)) = (\<lambda>j. 2 \<le> j)"
    by (simp add: obedient_def)
  have u: "[0..<2] = [0, Suc 0]"
    by (simp add: upt_rec)
  show ?thesis
    using h push_cancelled_releases_once [where k = 2 and env = "obedient (\<lambda>j. 2 \<le> j)"
        and st = configured and c = "[0.3, 0.1, 0]" and theta = 0 and radius = "0.1"
        and armType = "''selectable''" and frame = "eye 4"]
    by (simp add: a s i u push_segment_def)
qed

section \<open>The final axes of a draw\<close>

lemma motion_targets_append:
  "motion_targets (xs @ ys) = motion_targets xs @ motion_targets ys"
  by (induction xs rule: motion_targets.induct) simp_all

lemma draw_R_fixed: "draw_R ctrl = puts zeroM [(0, 0, - 1), (2, 1, - 1), (1, 2, - 1)]"
  by (simp add: draw_R_def)

lemma draw_segment_targets:
  "motion_targets (draw_segment env arm xd1 od1 xd2 od2 t3 k)
     = (if interrupting env k then []
        else if k = 0 then [(vadd xd1 [0, 0, 0.05], od1, 2.0)]
        else if k = 1 then [(xd1, od1, 1.5)]
        else [(xd2, od2, t3)])"
  by (simp add: draw_segment_def)

lemma draw_targets_any_arm:
  "motion_targets (fst (snd (draw env st False c theta radius dist' armType frame)))
     = motion_targets (fst (snd (draw env (st\<lparr>iCartCtrl := ctrl\<rparr>) False c theta radius dist' armType' frame)))"
  by (simp add: draw_def Let_def motion_targets_append changeElbowHeight_def lock_dof1_def
      upt_0_3 draw_pose1_def draw_pose2_def draw_sagittal1_def draw_sagittal2_def draw_R_fixed
      draw_segment_targets)

lemma draw_block:
  "map (\<lambda>i. map (\<lambda>j. draw_sagittal1 ctrl c theta radius i j) [0..<3]) [0..<3]
     = [[- 1, 0, 0], [0, 0, - 1], [0, - 1, 0]]"
  "map (\<lambda>i. map (\<lambda>j. draw_sagittal2 ctrl c theta radius dist' i j) [0..<3]) [0..<3]
     = [[- 1, 0, 0], [0, 0, - 1], [0, - 1, 0]]"
  by (simp_all add: draw_sagittal1_def draw_sagittal2_def setSubmatrix3_def draw_R_fixed puts_def put_def zeroM_def upt_0_3)

text \<open>
  Claim C2, as amended. After the two waypoints of a draw are placed, the same rotation
  block, with rows \<open>(-1, 0, 0)\<close>, \<open>(0, 0, -1)\<close> and \<open>(0, -1, 0)\<close>, is written into both of
  them, whichever arm \<^verbatim>\<open>iCartCtrl\<close> points to at that moment; and the targets of the motion
  commands of the draw (position, orientation, duration) are the same whichever arm the
  previous action used and whichever arm executes this one.
\<close>

theorem draw_final_axes_fixed:
  "map (\<lambda>i. map (\<lambda>j. draw_sagittal1 ctrl c theta radius i j) [0..<3]) [0..<3]
     = [[- 1, 0, 0], [0, 0, - 1], [0, - 1, 0]]
   \<and> map (\<lambda>i. map (\<lambda>j. draw_sagittal2 ctrl c theta radius dist' i j) [0..<3]) [0..<3]
     = [[- 1, 0, 0], [0, 0, - 1], [0, - 1, 0]]
   \<and> motion_targets (fst (snd (draw env st False c theta radius dist' armType frame)))
     = motion_targets
         (fst (snd (draw env (st\<lparr>iCartCtrl := ctrl\<rparr>) False c theta radius dist' armType' frame)))"
  using draw_block [of ctrl c theta radius] draw_block(2) [of ctrl c theta radius dist']
    draw_targets_any_arm [of env st c theta radius dist' armType frame ctrl armType']
  by simp

text \<open>
  Claim C2, as stated, fails: the rule does not differ between the arms. Both branches of
  the test on the arm build the same matrix, and for the draw at centroid (0.3, 0, 0),
  90 degrees and radius 0.1 the rotation block of the first waypoint is the same with
  the left and with the right arm.
\<close>

theorem draw_axes_same_for_both_arms:
  "draw_R (Some LeftArm) = draw_R (Some RightArm)
   \<and> map (\<lambda>i. map (\<lambda>j. draw_sagittal1 (Some LeftArm) [0.3, 0, 0] 90 0.1 i j) [0..<3]) [0..<3]
     = [[- 1, 0, 0], [0, 0, - 1], [0, - 1, 0]]
   \<and> map (\<lambda>i. map (\<lambda>j. draw_sagittal1 (Some RightArm) [0.3, 0, 0] 90 0.1 i j) [0..<3]) [0..<3]
     = [[- 1, 0, 0], [0, 0, - 1], [0, - 1, 0]]"
  by (simp add: draw_R_fixed draw_block)

section \<open>The quality of a simulated draw\<close>

lemma norm_v_eq: "0 \<le> b \<Longrightarrow> sum_list (map (\<lambda>a. a * a) x) = b * b \<Longrightarrow> norm_v x = b"
  by (simp add: norm_v_def)

lemma norm_v_less_iff: "0 < b \<Longrightarrow> norm_v x < b \<longleftrightarrow> sum_list (map (\<lambda>a. a * a) x) < b * b"
proof -
  assume b: "0 < b"
  have "sqrt (b * b) = b" using b by simp
  then have "norm_v x < b \<longleftrightarrow> sqrt (sum_list (map (\<lambda>a. a * a) x)) < sqrt (b * b)"
    by (simp add: norm_v_def)
  then show ?thesis by (simp only: real_sqrt_less_iff)
qed

lemma draw2_pose1_sagittal:
  "position (draw2_pose1 env arm pose [cx, 0, cz] 90 radius (eye 4)) = [cx, radius, cz]"
  by (simp add: draw2_pose1_def draw2_in_place_def draw_root1_def draw_H1_def c_sag_def base_H0_def
      position_def getCol_def mmul_def setSubmatrix3_def SE3inv_def eye_def puts_def put_def zeroM_def
      upt_0_4)

lemma draw2_pose2_sagittal:
  "position (draw2_pose2 env arm pose [cx, 0, cz] 90 radius dist' (eye 4)) = [cx + dist', radius, cz]"
  by (simp add: draw2_pose2_def draw2_in_place_def draw_root2_def draw_H1_def draw_H2_def c_sag_def base_H0_def
      position_def getCol_def mmul_def setSubmatrix3_def SE3inv_def eye_def puts_def put_def zeroM_def
      upt_0_4)

lemma vocab_codes:
  "Vocab_encode ''push'' = 1752397168"
  "Vocab_encode ''draw'' = 2002874980"
  "Vocab_encode ''vdra'' = 1634886774"
  "Vocab_encode ''tool'' = 1819242356"
  "Vocab_encode ''drap'' = 1885434468"
  "Vocab_encode ''vdrp'' = 1886545014"
  "Vocab_encode ''toop'' = 1886351220"
  "Vocab_encode ''attach'' = 1635021921"
  "Vocab_encode ''get'' = 7628135"
  "Vocab_encode ''remove'' = 1869440370"
  "Vocab_encode ''ack'' = 7037793"
  "Vocab_encode ''nack'' = 1801675118"
  by (simp_all add: Vocab_encode_def)

lemma draw_simulate_quality:
  "askForPose env arm xd1 od1 = (xdhat1, odhat1, q) \<Longrightarrow>
   askForPoseFrom env arm q xd2 od2 = (xdhat2, odhat2, q') \<Longrightarrow>
   draw_simulate env arm xd1 od1 xd2 od2
     = norm_v (vsub xd1 xdhat1) + norm_v (vsub od1 odhat1)
       + norm_v (vsub xd2 xdhat2) + norm_v (vsub od2 odhat2)
       + (if norm_v xdhat1 < 0.15 \<or> norm_v xdhat2 < 0.15 then 10 else 0)"
  by (simp add: draw_simulate_def Let_def)

lemma draw2_simulate_quality:
  "askForPose env arm xd1 od1 = (xdhat1, odhat1, q) \<Longrightarrow>
   askForPoseFrom env arm q xd2 od2 = (xdhat2, odhat2, q') \<Longrightarrow>
   draw2_simulate env arm xd1 od1 xd2 od2
     = norm_v (vsub xd1 xdhat1) + norm_v (vsub od1 odhat1)
       + norm_v (vsub xd2 xdhat2) + norm_v (vsub od2 odhat2)
       + (if norm_v xdhat2 < 0.15 then 10 else 0)"
  by (simp add: draw2_simulate_def Let_def)

text \<open>
  Claim C3 holds for \<^verbatim>\<open>draw\<close> (\<open>draw_simulate_quality\<close>) and fails for \<^verbatim>\<open>draw2\<close>, whose
  penalty looks at the second achieved position only (\<open>draw2_simulate_quality\<close>). The
  request \<^verbatim>\<open>vdrp 0 0.06 0 0 90 0.08 0.09\<close>, with a controller that achieves both poses
  exactly, has its first achieved position at 0.1 m from the origin, below 0.15 m, and
  the second at 0.17 m; the reply carries the quality 0, without the penalty of 10.
\<close>

theorem vdrp_no_penalty_near_first_waypoint:
  "norm_v (position (draw2_pose1 (obedient (\<lambda>k. False)) RightArm 0 [0.06, 0, 0] 90 0.08 (eye 4))) = 0.1
   \<and> map_option (fst \<circ> snd)
        (respond (obedient (\<lambda>k. False)) configured
           [VVocab (Vocab_encode ''vdrp''), VInt 0, VDouble 0.06, VDouble 0, VDouble 0,
            VDouble 90, VDouble 0.08, VDouble 0.09])
      = Some [ack, VDouble 0]"
proof -
  have n1: "norm_v [3 / 50, 2 / 25, 0] = 1 / 10" by (rule norm_v_eq) simp_all
  have n2: "norm_v [3 / 20, 2 / 25, 0] = 17 / 100" by (rule norm_v_eq) simp_all
  have z: "\<And>x. norm_v (vsub x x) = 0"
    by (simp add: norm_v_def vsub_def zip_same_conv_map o_def)
  show ?thesis
    by (simp add: respond_def respond_draw2_def get_def vocab_codes Let_def centroid_def to_int_def
        draw2_def configured_def draw2_simulate_def obedient_def choose_arm_def
        clear_interrupting_def
        draw2_pose1_sagittal draw2_pose2_sagittal n1 n2 z)
qed

section \<open>Requests with too few fields, and the radius\<close>

lemma push_motion_count:
  "length (filter is_motion (snd (push env st c theta radius armType frame)))
     = length (filter (\<lambda>k. \<not> interrupting env k) [0..<4])"
  by (simp add: push_def Let_def changeElbowHeight_def lock_dof1_def upt_0_4 push_segment_def)

lemma draw_motion_count:
  "length (filter is_motion (fst (snd (draw env st False c theta radius dist' armType frame))))
     = length (filter (\<lambda>k. \<not> interrupting env k) [0..<3])"
  by (simp add: draw_def Let_def changeElbowHeight_def lock_dof1_def upt_0_3 draw_segment_def)

lemma draw_virtual_no_motion:
  "filter is_motion (fst (snd (draw env st True c theta radius dist' armType frame))) = []"
  by (simp add: draw_def Let_def changeElbowHeight_def lock_dof1_def simulate_calls_def split: prod.split)

lemma respond_push_eq:
  "respond env st (VVocab (Vocab_encode ''push'') # payload)
     = Some (clear_interrupting (respond_push env st payload))"
  by (simp add: respond_def get_def)

lemma respond_draw_eq:
  "respond env st (VVocab (Vocab_encode ''draw'') # payload)
     = Some (clear_interrupting (respond_draw env st False payload))"
  "respond env st (VVocab (Vocab_encode ''vdra'') # payload)
     = Some (clear_interrupting (respond_draw env st True payload))"
  by (simp_all add: respond_def get_def vocab_codes)

lemma obedient_interrupting: "interrupting (obedient flag) = flag"
  by (simp add: obedient_def)

lemma configured_tool: "pushHand configured = ''selectable''" "toolFrame configured = eye 4"
  by (simp_all add: configured_def)

lemma configured_flag: "configured\<lparr>interrupting_flag := False\<rparr> = configured"
  by (simp add: configured_def)

text \<open>
  Claim C4, as amended. A push request with fewer than 5 fields after the command, and a
  draw or virtual draw request with fewer than 6, is dropped before any planning: no
  call is made on a controller, the reply is left empty (it carries neither \<^verbatim>\<open>ack\<close> nor
  \<^verbatim>\<open>nack\<close>), and the only write to the state is the one \<^verbatim>\<open>respond\<close> makes on every path,
  which clears \<^verbatim>\<open>interrupting\<close>. A request with enough fields is planned and answered by
  \<^verbatim>\<open>ack\<close> whatever its radius: a push then commands one motion for each of its four
  segments that is not interrupted, a draw one for each of its three, and a virtual
  draw commands none and adds its quality to the reply; they too leave the flag cleared.
\<close>

theorem respond_drops_short_requests:
  "(length payload < 5 \<longrightarrow>
      respond env st (VVocab (Vocab_encode ''push'') # payload)
        = Some (st\<lparr>interrupting_flag := False\<rparr>, [], []))
   \<and> (5 \<le> length payload \<longrightarrow>
      map_option (\<lambda>r. (interrupting_flag (fst r), fst (snd r),
                        length (filter is_motion (snd (snd r)))))
        (respond env st (VVocab (Vocab_encode ''push'') # payload))
        = Some (False, [ack], length (filter (\<lambda>k. \<not> interrupting env k) [0..<4])))
   \<and> (length payload < 6 \<longrightarrow>
      respond env st (VVocab (Vocab_encode ''draw'') # payload)
        = Some (st\<lparr>interrupting_flag := False\<rparr>, [], [])
      \<and> respond env st (VVocab (Vocab_encode ''vdra'') # payload)
        = Some (st\<lparr>interrupting_flag := False\<rparr>, [], []))
   \<and> (6 \<le> length payload \<longrightarrow>
      map_option (\<lambda>r. (interrupting_flag (fst r), fst (snd r),
                        length (filter is_motion (snd (snd r)))))
        (respond env st (VVocab (Vocab_encode ''draw'') # payload))
        = Some (False, [ack], length (filter (\<lambda>k. \<not> interrupting env k) [0..<3]))
      \<and> map_option (\<lambda>r. (interrupting_flag (fst r), fst (snd r),
                        length (filter is_motion (snd (snd r)))))
        (respond env st (VVocab (Vocab_encode ''vdra'') # payload))
        = Some (False,
                [ack, VDouble (snd (snd (draw env st True (centroid payload 0)
                   (asDouble (get payload 3)) (asDouble (get payload 4))
                   (asDouble (get payload 5)) (pushHand st) (toolFrame st))))], 0))"
proof -
  have 1: "respond env st (VVocab (Vocab_encode ''push'') # payload)
             = Some (st\<lparr>interrupting_flag := False\<rparr>, [], [])"
    if "length payload < 5"
    using that by (simp add: respond_push_eq respond_push_def clear_interrupting_def)
  have 2: "map_option (\<lambda>r. (interrupting_flag (fst r), fst (snd r),
                        length (filter is_motion (snd (snd r)))))
        (respond env st (VVocab (Vocab_encode ''push'') # payload))
        = Some (False, [ack], length (filter (\<lambda>k. \<not> interrupting env k) [0..<4]))"
    if "5 \<le> length payload"
    using that push_motion_count [of env st "centroid payload 0" "asDouble (get payload 3)"
        "asDouble (get payload 4)" "pushHand st" "toolFrame st"]
    by (simp add: respond_push_eq respond_push_def case_prod_beta clear_interrupting_def)
  have 3: "respond env st (VVocab (Vocab_encode ''draw'') # payload)
             = Some (st\<lparr>interrupting_flag := False\<rparr>, [], [])
      \<and> respond env st (VVocab (Vocab_encode ''vdra'') # payload)
             = Some (st\<lparr>interrupting_flag := False\<rparr>, [], [])"
    if "length payload < 6"
    using that by (simp add: respond_draw_eq respond_draw_def clear_interrupting_def)
  have 4: "map_option (\<lambda>r. (interrupting_flag (fst r), fst (snd r),
                        length (filter is_motion (snd (snd r)))))
        (respond env st (VVocab (Vocab_encode ''draw'') # payload))
        = Some (False, [ack], length (filter (\<lambda>k. \<not> interrupting env k) [0..<3]))"
    if "6 \<le> length payload"
    using that draw_motion_count [of env st "centroid payload 0" "asDouble (get payload 3)"
        "asDouble (get payload 4)" "asDouble (get payload 5)" "pushHand st" "toolFrame st"]
    by (simp add: respond_draw_eq respond_draw_def case_prod_beta clear_interrupting_def)
  have 5: "map_option (\<lambda>r. (interrupting_flag (fst r), fst (snd r),
                        length (filter is_motion (snd (snd r)))))
        (respond env st (VVocab (Vocab_encode ''vdra'') # payload))
        = Some (False,
                [ack, VDouble (snd (snd (draw env st True (centroid payload 0)
                   (asDouble (get payload 3)) (asDouble (get payload 4))
                   (asDouble (get payload 5)) (pushHand st) (toolFrame st))))], 0)"
    if "6 \<le> length payload"
    using that draw_virtual_no_motion [of env st "centroid payload 0" "asDouble (get payload 3)"
        "asDouble (get payload 4)" "asDouble (get payload 5)" "pushHand st" "toolFrame st"]
    by (simp add: respond_draw_eq respond_draw_def case_prod_beta clear_interrupting_def)
  show ?thesis using 1 2 3 4 5 by blast
qed

theorem respond_drops_short_requests_witness:
  "length [VDouble 0.3] < 5
   \<and> respond (obedient (\<lambda>k. True)) (configured\<lparr>interrupting_flag := True\<rparr>)
        [VVocab (Vocab_encode ''push''), VDouble 0.3]
       = Some (configured, [], [])
   \<and> 5 \<le> length [VDouble 0.3, VDouble 0.1, VDouble 0, VDouble 0, VDouble 0, VDouble 0.1]
   \<and> map_option (\<lambda>r. (interrupting_flag (fst r), fst (snd r),
                        length (filter is_motion (snd (snd r)))))
        (respond (obedient (\<lambda>k. False)) configured
           [VVocab (Vocab_encode ''push''), VDouble 0.3, VDouble 0.1, VDouble 0, VDouble 0,
            VDouble 0, VDouble 0.1])
       = Some (False, [ack], 4)
   \<and> length [VDouble 0.3] < 6
   \<and> respond (obedient (\<lambda>k. True)) (configured\<lparr>interrupting_flag := True\<rparr>)
        [VVocab (Vocab_encode ''draw''), VDouble 0.3]
       = Some (configured, [], [])
   \<and> respond (obedient (\<lambda>k. True)) (configured\<lparr>interrupting_flag := True\<rparr>)
        [VVocab (Vocab_encode ''vdra''), VDouble 0.3]
       = Some (configured, [], [])
   \<and> 6 \<le> length [VDouble 0.3, VDouble 0.1, VDouble 0, VDouble 0, VDouble 0, VDouble 0.1]
   \<and> map_option (\<lambda>r. (interrupting_flag (fst r), fst (snd r),
                        length (filter is_motion (snd (snd r)))))
        (respond (obedient (\<lambda>k. False)) configured
           [VVocab (Vocab_encode ''draw''), VDouble 0.3, VDouble 0.1, VDouble 0, VDouble 0,
            VDouble 0, VDouble 0.1])
       = Some (False, [ack], 3)"
  using respond_drops_short_requests [where payload = "[VDouble 0.3]"
      and env = "obedient (\<lambda>k. True)" and st = "configured\<lparr>interrupting_flag := True\<rparr>"]
    respond_drops_short_requests [where
      payload = "[VDouble 0.3, VDouble 0.1, VDouble 0, VDouble 0, VDouble 0, VDouble 0.1]"
      and env = "obedient (\<lambda>k. False)" and st = configured]
  by (auto simp: obedient_interrupting upt_0_4 upt_0_3 configured_flag)

text \<open>
  Claim C4, as stated, fails. The push request with centroid (0.3, 0.1, 0), angle 0 and
  radius -1 is not rejected: it is answered by \<^verbatim>\<open>ack\<close> after four motion commands. The
  push request with two fields only is dropped with an empty reply, which is not the
  negative acknowledgement.
\<close>

theorem push_radius_not_validated:
  "map_option (\<lambda>r. (fst (snd r), length (filter is_motion (snd (snd r)))))
     (respond (obedient (\<lambda>k. False)) configured
        [VVocab (Vocab_encode ''push''), VDouble 0.3, VDouble 0.1, VDouble 0, VDouble 0,
         VDouble (- 1)])
     = Some ([ack], 4)
   \<and> respond (obedient (\<lambda>k. False)) configured
        [VVocab (Vocab_encode ''push''), VDouble 0.3, VDouble 0.1]
     = Some (configured, [], [])
   \<and> nack \<noteq> ack"
proof -
  let ?E = "obedient (\<lambda>k. False)"
  have n: "nack \<noteq> ack" by (simp add: nack_def ack_def vocab_codes)
  have m: "length (filter is_motion
             (snd (push ?E configured [0.3, 0.1, 0] 0 (- 1) ''selectable'' (eye 4)))) = 4"
    using push_motion_count [of ?E configured "[0.3, 0.1, 0]" 0 "- 1" "''selectable''" "eye 4"]
    by (simp add: obedient_interrupting upt_0_4)
  have r: "respond ?E configured
        [VVocab (Vocab_encode ''push''), VDouble 0.3, VDouble 0.1, VDouble 0, VDouble 0,
         VDouble (- 1)]
      = Some ((fst (push ?E configured [0.3, 0.1, 0] 0 (- 1) ''selectable'' (eye 4)))
                \<lparr>interrupting_flag := False\<rparr>, [ack],
              snd (push ?E configured [0.3, 0.1, 0] 0 (- 1) ''selectable'' (eye 4)))"
    by (simp add: respond_push_eq respond_push_def centroid_def get_def case_prod_beta
        configured_tool clear_interrupting_def)
  have s: "respond ?E configured [VVocab (Vocab_encode ''push''), VDouble 0.3, VDouble 0.1]
      = Some (configured, [], [])"
    by (simp add: respond_push_eq respond_push_def clear_interrupting_def configured_flag)
  show ?thesis using n m r s by simp
qed

section \<open>Attaching, reading and removing the tool\<close>

text \<open>
  Claim C9. After a tool is attached with an arm name and an offset \<open>(x, y, z)\<close>, by
  \<^verbatim>\<open>tool attach\<close> or by \<^verbatim>\<open>toop attach\<close>, the next \<^verbatim>\<open>get\<close> replies \<^verbatim>\<open>ack\<close> followed by that
  arm name and that offset, and leaves the state as it is; a \<^verbatim>\<open>remove\<close> sets the tool
  frame to the identity and the arm name to \<^verbatim>\<open>selectable\<close>.
\<close>

theorem tool_attach_get_remove:
  "(respond env st [VVocab (Vocab_encode ''tool''), VVocab (Vocab_encode ''attach''),
                    VString arm, VDouble x, VDouble y, VDouble z] = Some (sta, replya, callsa)
     \<longrightarrow> replya = [ack]
       \<and> respond env sta [VVocab (Vocab_encode ''tool''), VVocab (Vocab_encode ''get'')]
           = Some (sta, [ack, VString arm, VDouble x, VDouble y, VDouble z], [])
       \<and> respond env sta [VVocab (Vocab_encode ''tool''), VVocab (Vocab_encode ''remove'')]
           = Some (sta\<lparr>pushHand := ''selectable'', toolFrame := eye 4\<rparr>, [ack], []))
   \<and> (respond env st [VVocab (Vocab_encode ''toop''), VVocab (Vocab_encode ''attach''),
                    VString arm, VDouble x, VDouble y, VDouble z] = Some (stb, replyb, callsb)
     \<longrightarrow> replyb = [ack]
       \<and> respond env stb [VVocab (Vocab_encode ''toop''), VVocab (Vocab_encode ''get'')]
           = Some (stb, [ack, VString arm, VDouble x, VDouble y, VDouble z], [])
       \<and> respond env stb [VVocab (Vocab_encode ''toop''), VVocab (Vocab_encode ''remove'')]
           = Some (stb\<lparr>pushHand := ''selectable'', toolFrame := eye 4\<rparr>, [ack], []))"
  by (auto simp: respond_def respond_tool_def respond_toop_def get_def vocab_codes Let_def
      tool_point_def tool_get_def tool_remove_def setCol_def clear_interrupting_def)

theorem tool_attach_get_remove_witness:
  "respond (obedient (\<lambda>k. False)) configured
      [VVocab (Vocab_encode ''tool''), VVocab (Vocab_encode ''attach''),
       VString ''left'', VDouble 0.1, VDouble (- 0.05), VDouble 0.02]
     = Some (configured\<lparr>pushHand := ''left'',
                        toolFrame := setCol (eye 4) 3 [0.1, - 0.05, 0.02, 1]\<rparr>, [ack], [])
   \<and> respond (obedient (\<lambda>k. False))
        (configured\<lparr>pushHand := ''left'', toolFrame := setCol (eye 4) 3 [0.1, - 0.05, 0.02, 1]\<rparr>)
        [VVocab (Vocab_encode ''tool''), VVocab (Vocab_encode ''get'')]
     = Some (configured\<lparr>pushHand := ''left'',
                        toolFrame := setCol (eye 4) 3 [0.1, - 0.05, 0.02, 1]\<rparr>,
             [ack, VString ''left'', VDouble 0.1, VDouble (- 0.05), VDouble 0.02], [])
   \<and> respond (obedient (\<lambda>k. False)) configured
      [VVocab (Vocab_encode ''toop''), VVocab (Vocab_encode ''attach''),
       VString ''left'', VDouble 0.1, VDouble (- 0.05), VDouble 0.02]
     = Some (configured\<lparr>pushHand := ''left'',
                        toolFrame := setCol (eye 4) 3 [0.1, - 0.05, 0.02, 1]\<rparr>, [ack], [])
   \<and> respond (obedient (\<lambda>k. False))
        (configured\<lparr>pushHand := ''left'', toolFrame := setCol (eye 4) 3 [0.1, - 0.05, 0.02, 1]\<rparr>)
        [VVocab (Vocab_encode ''toop''), VVocab (Vocab_encode ''remove'')]
     = Some (configured, [ack], [])"
proof -
  let ?st1 = "configured\<lparr>pushHand := ''left'',
                        toolFrame := setCol (eye 4) 3 [0.1, - 0.05, 0.02, 1]\<rparr>"
  have a: "respond (obedient (\<lambda>k. False)) configured
      [VVocab (Vocab_encode ''tool''), VVocab (Vocab_encode ''attach''),
       VString ''left'', VDouble 0.1, VDouble (- 0.05), VDouble 0.02] = Some (?st1, [ack], [])"
    by (simp add: respond_def respond_tool_def get_def vocab_codes Let_def tool_point_def
        obedient_def clear_interrupting_def configured_def)
  have b: "respond (obedient (\<lambda>k. False)) configured
      [VVocab (Vocab_encode ''toop''), VVocab (Vocab_encode ''attach''),
       VString ''left'', VDouble 0.1, VDouble (- 0.05), VDouble 0.02] = Some (?st1, [ack], [])"
    by (simp add: respond_def respond_toop_def get_def vocab_codes Let_def tool_point_def
        clear_interrupting_def configured_def)
  have c: "?st1\<lparr>pushHand := ''selectable'', toolFrame := eye 4\<rparr> = configured"
    by (simp add: configured_def)
  show ?thesis
    using a b c tool_attach_get_remove [where env = "obedient (\<lambda>k. False)" and st = configured
        and arm = "''left''" and x = "0.1" and y = "- 0.05" and z = "0.02"
        and sta = ?st1 and replya = "[ack]" and callsa = "[]"
        and stb = ?st1 and replyb = "[ack]" and callsb = "[]"]
    by simp
qed

section \<open>Convergence of the gaze on the tool tip\<close>











section \<open>Duration of the pushing segment\<close>

lemma push_time_bounds_cases:
  "push_time_bounds theta armType =
     (let s = (if armType \<noteq> ''selectable'' then 1.3 else 1) in
      if \<bar>theta\<bar> < 10 \<or> \<bar>theta - 180\<bar> < 10 then (0.40 * s, 0.60 * s) else (0.50 * s, 0.80 * s))"
  by (simp add: push_time_bounds_def Let_def)

lemma push_time_bounds_ordered:
  "push_time_bounds theta armType = (tmin, tmax) \<Longrightarrow> 0 < tmin \<and> tmin < tmax"
  by (auto simp: push_time_bounds_def Let_def split: if_splits)

lemma clamp_mono:
  fixes lo hi k :: real
  assumes "lo \<le> hi" "0 \<le> k" "r \<le> r'"
  shows "max (min hi (lo + k * (r - m))) lo \<le> max (min hi (lo + k * (r' - m))) lo"
proof -
  have "k * (r - m) \<le> k * (r' - m)" using assms(2,3) by (intro mult_left_mono) simp_all
  then show ?thesis by (simp add: max_def min_def)
qed

lemma push_durations:
  "map (\<lambda>(x, od, t). t) (motion_targets (snd (push env st c theta radius armType frame)))
     = concat (map (\<lambda>k. if interrupting env k then []
                          else [if k = 2 then push_trajTime theta radius armType else 1])
                   [0..<4])"
  by (simp add: push_def Let_def changeElbowHeight_def lock_dof1_def motion_targets_append
      upt_0_4 push_segment_def)

lemma push_xd_offset_tool:
  "push_xd [cx, cy, cz] 0 radius (setCol (eye 4) 3 [tx, 0, 0, 1]) Cand1
     = [cx + tx, cy + radius, cz]"
  by (simp add: push_xd_def push_frame_def to_root_def position_def getCol_def mmul_def
      base_H0_def push_H1_def puts_def put_def zeroM_def SE3inv_def eye_def setCol_def
      theta_rad_def Let_def upt_0_4)

text \<open>
  Claim C6, as amended. Let \<open>(tmin, tmax)\<close> be the bounds a push computes: 0.40 and 0.60
  seconds when \<^verbatim>\<open>theta\<close>, as received and not brought back into one turn, is within 10
  degrees of 0 or of 180, and 0.50 and 0.80 seconds otherwise; both multiplied by 1.3
  exactly when the arm name the push is given is not \<^verbatim>\<open>selectable\<close>. That name is
  \<^verbatim>\<open>pushHand\<close>, the name under which the last tool was attached. Then the duration of the
  pushing segment lies between \<open>tmin\<close> and \<open>tmax\<close>, is the linear interpolation between
  them for a radius from 0.04 to 0.18 m, is \<open>tmin\<close> below that range and \<open>tmax\<close> above
  it, and never decreases when the radius grows. It is the duration of the third
  movement of the push, the one through the object, when that movement is not
  interrupted.
\<close>

theorem push_trajTime_interpolation:
  "push_time_bounds theta armType = (tmin, tmax) \<Longrightarrow>
     (tmin, tmax) =
       (let s = (if armType \<noteq> ''selectable'' then 1.3 else 1)
        in if \<bar>theta\<bar> < 10 \<or> \<bar>theta - 180\<bar> < 10 then (0.40 * s, 0.60 * s)
           else (0.50 * s, 0.80 * s))
     \<and> tmin \<le> push_trajTime theta radius armType
     \<and> push_trajTime theta radius armType \<le> tmax
     \<and> (0.04 \<le> radius \<and> radius \<le> 0.18 \<longrightarrow>
          push_trajTime theta radius armType
            = tmin + (tmax - tmin) * ((radius - 0.04) / (0.18 - 0.04)))
     \<and> (radius \<le> 0.04 \<longrightarrow> push_trajTime theta radius armType = tmin)
     \<and> (0.18 \<le> radius \<longrightarrow> push_trajTime theta radius armType = tmax)
     \<and> (\<forall>radius'. radius \<le> radius' \<longrightarrow>
          push_trajTime theta radius armType \<le> push_trajTime theta radius' armType)
     \<and> map (\<lambda>(x, od, t). t)
          (motion_targets (push_segment env arm c theta radius armType frame xd od 2))
         = (if interrupting env 2 then [] else [push_trajTime theta radius armType])
     \<and> snd (snd (respond_push env st payload))
         = (if 5 \<le> length payload
            then snd (push env st (centroid payload 0) (asDouble (get payload 3))
                        (asDouble (get payload 4)) (pushHand st) (toolFrame st))
            else [])
     \<and> map_option (\<lambda>r. pushHand (fst r))
          (respond env st [VVocab (Vocab_encode ''tool''), VVocab (Vocab_encode ''attach''),
                           VString name, VDouble x, VDouble y, VDouble z])
         = Some name"
proof -
  assume b: "push_time_bounds theta armType = (tmin, tmax)"
  have o: "0 < tmin" "tmin < tmax" using push_time_bounds_ordered [OF b] by simp_all
  let ?k = "(tmax - tmin) / (push_rmax - push_rmin)"
  have k: "0 \<le> ?k" using o by (simp add: push_rmax_def push_rmin_def)
  have t: "\<And>r. push_trajTime theta r armType = max (min tmax (tmin + ?k * (r - push_rmin))) tmin"
    by (simp add: push_trajTime_def b)
  have 1: "(tmin, tmax) =
       (let s = (if armType \<noteq> ''selectable'' then 1.3 else 1)
        in if \<bar>theta\<bar> < 10 \<or> \<bar>theta - 180\<bar> < 10 then (0.40 * s, 0.60 * s)
           else (0.50 * s, 0.80 * s))"
    using b by (simp only: push_time_bounds_cases)
  have 2: "tmin \<le> push_trajTime theta radius armType" by (simp add: t)
  have 3: "push_trajTime theta radius armType \<le> tmax" using o by (simp add: t)
  have 4: "push_trajTime theta radius armType
            = tmin + (tmax - tmin) * ((radius - 0.04) / (0.18 - 0.04))"
    if r: "0.04 \<le> radius" "radius \<le> 0.18"
  proof -
    have "0 \<le> ?k * (radius - push_rmin)"
      using k r by (intro mult_nonneg_nonneg) (simp_all add: push_rmin_def)
    moreover have "?k * (radius - push_rmin) \<le> ?k * (push_rmax - push_rmin)"
      using k r by (intro mult_left_mono) (simp_all add: push_rmax_def)
    moreover have "?k * (push_rmax - push_rmin) = tmax - tmin"
      by (simp add: push_rmax_def push_rmin_def)
    ultimately have "push_trajTime theta radius armType = tmin + ?k * (radius - push_rmin)"
      by (simp add: t max_def min_def)
    then show ?thesis by (simp add: push_rmax_def push_rmin_def algebra_simps)
  qed
  have 5: "push_trajTime theta radius armType = tmin" if r: "radius \<le> 0.04"
  proof -
    have "?k * (radius - push_rmin) \<le> 0"
      using k r by (intro mult_nonneg_nonpos) (simp_all add: push_rmin_def)
    then show ?thesis using o by (simp add: t max_def min_def)
  qed
  have 6: "push_trajTime theta radius armType = tmax" if r: "0.18 \<le> radius"
  proof -
    have "?k * (push_rmax - push_rmin) \<le> ?k * (radius - push_rmin)"
      using k r by (intro mult_left_mono) (simp_all add: push_rmax_def)
    moreover have "?k * (push_rmax - push_rmin) = tmax - tmin"
      by (simp add: push_rmax_def push_rmin_def)
    ultimately show ?thesis using o by (simp add: t max_def min_def)
  qed
  have 7: "push_trajTime theta radius armType \<le> push_trajTime theta radius' armType"
    if "radius \<le> radius'" for radius'
    unfolding t using o k that by (intro clamp_mono) simp_all
  have 8: "map (\<lambda>(x, od, t). t)
          (motion_targets (push_segment env arm c theta radius armType frame xd od 2))
         = (if interrupting env 2 then [] else [push_trajTime theta radius armType])"
    by (simp add: push_segment_def)
  have 9: "snd (snd (respond_push env st payload))
         = (if 5 \<le> length payload
            then snd (push env st (centroid payload 0) (asDouble (get payload 3))
                        (asDouble (get payload 4)) (pushHand st) (toolFrame st))
            else [])"
    by (simp add: respond_push_def case_prod_beta)
  have 10: "map_option (\<lambda>r. pushHand (fst r))
          (respond env st [VVocab (Vocab_encode ''tool''), VVocab (Vocab_encode ''attach''),
                           VString name, VDouble x, VDouble y, VDouble z])
         = Some name"
    by (simp add: respond_def respond_tool_def get_def vocab_codes Let_def
        clear_interrupting_def)
  show ?thesis using 1 2 3 4 5 6 7 8 9 10 by blast
qed

theorem push_trajTime_interpolation_witness:
  "push_time_bounds 0 ''left'' = (0.52, 0.78)
   \<and> (0.04 :: real) \<le> 0.11 \<and> (0.11 :: real) \<le> 0.18 \<and> push_trajTime 0 0.11 ''left'' = 0.65
   \<and> (0.02 :: real) \<le> 0.04 \<and> push_trajTime 0 0.02 ''left'' = 0.52
   \<and> (0.18 :: real) \<le> 0.2 \<and> push_trajTime 0 0.2 ''left'' = 0.78
   \<and> (0.11 :: real) \<le> 0.15 \<and> push_trajTime 0 0.11 ''left'' \<le> push_trajTime 0 0.15 ''left''
   \<and> map_option (\<lambda>r. pushHand (fst r))
        (respond (obedient (\<lambda>k. False)) configured
           [VVocab (Vocab_encode ''tool''), VVocab (Vocab_encode ''attach''),
            VString ''left'', VDouble 0.1, VDouble 0, VDouble 0])
       = Some ''left''"
proof -
  have b: "push_time_bounds 0 ''left'' = (0.52, 0.78)"
    by (simp add: push_time_bounds_def)
  show ?thesis
    using b push_trajTime_interpolation [OF b, where radius = "0.11"
        and env = "obedient (\<lambda>k. False)" and st = configured and name = "''left''"
        and x = "0.1" and y = 0 and z = 0]
      push_trajTime_interpolation [OF b, where radius = "0.02"]
      push_trajTime_interpolation [OF b, where radius = "0.2"]
    by simp
qed

text \<open>
  Claim C6, as stated, fails. A tool attached under the arm name \<^verbatim>\<open>selectable\<close>, with the
  offset (0.1, 0, 0), is reported by \<^verbatim>\<open>tool get\<close> and moves the first candidate of the
  push at centroid (0.3, 0.1, 0), angle 0 and radius 0.11 from (0.3, 0.21, 0) to
  (0.4, 0.21, 0); the bounds of that push are 0.40 and 0.60, not multiplied by 1.3, and
  its four movements last 1, 1, 0.5 and 1 seconds. With the same tool attached under the
  name \<^verbatim>\<open>left\<close> the third lasts 0.65 seconds. The angles 360 and -175, which point along
  0 and close to 180, take the slower bounds.
\<close>

theorem tool_named_selectable_unscaled:
  "respond (obedient (\<lambda>k. False)) configured
      [VVocab (Vocab_encode ''tool''), VVocab (Vocab_encode ''attach''),
       VString ''selectable'', VDouble 0.1, VDouble 0, VDouble 0]
     = Some (configured\<lparr>toolFrame := setCol (eye 4) 3 [0.1, 0, 0, 1]\<rparr>, [ack], [])
   \<and> respond (obedient (\<lambda>k. False)) (configured\<lparr>toolFrame := setCol (eye 4) 3 [0.1, 0, 0, 1]\<rparr>)
      [VVocab (Vocab_encode ''tool''), VVocab (Vocab_encode ''get'')]
     = Some (configured\<lparr>toolFrame := setCol (eye 4) 3 [0.1, 0, 0, 1]\<rparr>,
             [ack, VString ''selectable'', VDouble 0.1, VDouble 0, VDouble 0], [])
   \<and> push_xd [0.3, 0.1, 0] 0 0.11 (eye 4) Cand1 = [0.3, 0.21, 0]
   \<and> push_xd [0.3, 0.1, 0] 0 0.11 (setCol (eye 4) 3 [0.1, 0, 0, 1]) Cand1 = [0.4, 0.21, 0]
   \<and> push_time_bounds 0 ''selectable'' = (0.4, 0.6)
   \<and> map_option (\<lambda>r. map (\<lambda>(x, od, t). t) (motion_targets (snd (snd r))))
        (respond (obedient (\<lambda>k. False))
           (configured\<lparr>toolFrame := setCol (eye 4) 3 [0.1, 0, 0, 1]\<rparr>)
           [VVocab (Vocab_encode ''push''), VDouble 0.3, VDouble 0.1, VDouble 0, VDouble 0,
            VDouble 0.11])
       = Some [1, 1, 0.5, 1]
   \<and> map_option (\<lambda>r. map (\<lambda>(x, od, t). t) (motion_targets (snd (snd r))))
        (respond (obedient (\<lambda>k. False))
           (configured\<lparr>pushHand := ''left'', toolFrame := setCol (eye 4) 3 [0.1, 0, 0, 1]\<rparr>)
           [VVocab (Vocab_encode ''push''), VDouble 0.3, VDouble 0.1, VDouble 0, VDouble 0,
            VDouble 0.11])
       = Some [1, 1, 0.65, 1]
   \<and> push_time_bounds 360 ''selectable'' = (0.5, 0.8)
   \<and> push_time_bounds (- 175) ''selectable'' = (0.5, 0.8)"
proof -
  let ?E = "obedient (\<lambda>k. False)"
  let ?F = "setCol (eye 4) 3 [0.1, 0, 0, 1]"
  have 1: "respond ?E configured
      [VVocab (Vocab_encode ''tool''), VVocab (Vocab_encode ''attach''),
       VString ''selectable'', VDouble 0.1, VDouble 0, VDouble 0]
     = Some (configured\<lparr>toolFrame := ?F\<rparr>, [ack], [])"
    by (simp add: respond_def respond_tool_def get_def vocab_codes Let_def tool_point_def
        obedient_def clear_interrupting_def configured_def)
  have 2: "respond ?E (configured\<lparr>toolFrame := ?F\<rparr>)
      [VVocab (Vocab_encode ''tool''), VVocab (Vocab_encode ''get'')]
     = Some (configured\<lparr>toolFrame := ?F\<rparr>,
             [ack, VString ''selectable'', VDouble 0.1, VDouble 0, VDouble 0], [])"
    by (simp add: respond_def respond_tool_def get_def vocab_codes Let_def tool_get_def
        clear_interrupting_def configured_def setCol_def)
  have 3: "push_xd [0.3, 0.1, 0] 0 0.11 (eye 4) Cand1 = [0.3, 0.21, 0]"
    by (simp add: push_xd_def push_frame_def to_root_def position_def getCol_def mmul_def
        base_H0_def push_H1_def puts_def put_def zeroM_def SE3inv_def eye_def
        theta_rad_def Let_def upt_0_4)
  have 4: "push_xd [0.3, 0.1, 0] 0 0.11 ?F Cand1 = [0.4, 0.21, 0]"
    using push_xd_offset_tool [of "0.3" "0.1" 0 "0.11" "0.1"] by simp
  have 5: "push_time_bounds 0 ''selectable'' = (0.4, 0.6)"
    by (simp add: push_time_bounds_def)
  have t: "push_trajTime 0 0.11 ''selectable'' = 0.5" "push_trajTime 0 0.11 ''left'' = 0.65"
    by (simp_all add: push_trajTime_def push_time_bounds_def push_rmax_def push_rmin_def)
  have d: "\<And>st name. map (\<lambda>(x, od, t). t)
             (motion_targets (snd (push ?E st [0.3, 0.1, 0] 0 0.11 name ?F)))
           = [1, 1, push_trajTime 0 0.11 name, 1]"
    by (simp add: push_durations obedient_interrupting upt_0_4)
  have 6: "map_option (\<lambda>r. map (\<lambda>(x, od, t). t) (motion_targets (snd (snd r))))
        (respond ?E (configured\<lparr>toolFrame := ?F\<rparr>)
           [VVocab (Vocab_encode ''push''), VDouble 0.3, VDouble 0.1, VDouble 0, VDouble 0,
            VDouble 0.11])
       = Some [1, 1, 0.5, 1]"
    using d [of "configured\<lparr>toolFrame := ?F\<rparr>" "''selectable''"] t(1)
    by (simp add: respond_push_eq respond_push_def centroid_def get_def case_prod_beta
        clear_interrupting_def configured_tool)
  have 7: "map_option (\<lambda>r. map (\<lambda>(x, od, t). t) (motion_targets (snd (snd r))))
        (respond ?E (configured\<lparr>pushHand := ''left'', toolFrame := ?F\<rparr>)
           [VVocab (Vocab_encode ''push''), VDouble 0.3, VDouble 0.1, VDouble 0, VDouble 0,
            VDouble 0.11])
       = Some [1, 1, 0.65, 1]"
    using d [of "configured\<lparr>pushHand := ''left'', toolFrame := ?F\<rparr>" "''left''"] t(2)
    by (simp add: respond_push_eq respond_push_def centroid_def get_def case_prod_beta
        clear_interrupting_def)
  have 8: "push_time_bounds 360 ''selectable'' = (0.5, 0.8)"
       "push_time_bounds (- 175) ''selectable'' = (0.5, 0.8)"
    by (simp_all add: push_time_bounds_def)
  show ?thesis using 1 2 3 4 5 6 7 8 by blast
qed

end
